theory Spec2Isabelle
  imports Main "HOL-Library.AList"
begin

section \<open>The *arr suite API client\<close>

text \<open>
  A shallow embedding of \<^verbatim>\<open>src/arr-client.ts\<close>: the request dispatcher
  \<^verbatim>\<open>ArrClient.request\<close>, the constructors of the five service clients and every
  public method. Strings are modelled as their UTF-8 byte sequences (\<open>string\<close>), numbers
  as integers (identifiers, counts and HTTP status codes are the only numbers the
  client handles itself), JavaScript values as the datatype \<open>jsval\<close>, and the HTTP
  transport \<^verbatim>\<open>fetch\<close> as a parameter of every operation.
\<close>

subsection \<open>Text: numbers, percent-encoding, JSON\<close>

text \<open>\<^verbatim>\<open>Number.prototype.toString\<close> on an integer: decimal digits, a minus sign when negative.\<close>

fun nat_toString :: "nat \<Rightarrow> string" where
  "nat_toString n =
     (if n < 10 then [''0123456789'' ! n]
      else nat_toString (n div 10) @ [''0123456789'' ! (n mod 10)])"

definition Number_toString :: "int \<Rightarrow> string" where
  "Number_toString i = (if i < 0 then CHR ''-'' # nat_toString (nat (- i)) else nat_toString (nat i))"

text \<open>Percent-encoding of one byte, with upper-case hexadecimal digits.\<close>

definition hex_digit :: "nat \<Rightarrow> char" where
  "hex_digit n = ''0123456789ABCDEF'' ! n"

definition percent_encode_byte :: "char \<Rightarrow> string" where
  "percent_encode_byte c =
     [CHR ''%'', hex_digit ((of_char c :: nat) div 16), hex_digit ((of_char c :: nat) mod 16)]"

definition ascii_alphanumeric :: "char \<Rightarrow> bool" where
  "ascii_alphanumeric c =
     (c \<in> set ''ABCDEFGHIJKLMNOPQRSTUVWXYZabcdefghijklmnopqrstuvwxyz0123456789'')"

text \<open>
  \<^verbatim>\<open>encodeURIComponent\<close>: every byte is percent-encoded except the ASCII
  alphanumerics and \<^verbatim>\<open>- _ . ! ~ * ' ( )\<close>.
\<close>

definition uri_unreserved :: "char \<Rightarrow> bool" where
  "uri_unreserved c = (ascii_alphanumeric c \<or> c \<in> set ''-_.!~*()'' \<or> c = CHR 0x27)"

definition encodeURIComponent :: "string \<Rightarrow> string" where
  "encodeURIComponent s = concat (map (\<lambda>c. if uri_unreserved c then [c] else percent_encode_byte c) s)"

text \<open>
  \<^verbatim>\<open>URLSearchParams.prototype.toString\<close>: the application/x-www-form-urlencoded
  serializer. A space becomes \<^verbatim>\<open>+\<close>; the ASCII alphanumerics and \<^verbatim>\<open>* - . _\<close>
  are kept; every other byte is percent-encoded. Pairs are written
  \<^verbatim>\<open>name=value\<close> and joined with \<^verbatim>\<open>&\<close>.
\<close>

definition urlencoded_byte :: "char \<Rightarrow> string" where
  "urlencoded_byte c =
     (if c = CHR '' '' then ''+''
      else if ascii_alphanumeric c \<or> c \<in> set ''*-._'' then [c]
      else percent_encode_byte c)"

definition urlencoded_string :: "string \<Rightarrow> string" where
  "urlencoded_string s = concat (map urlencoded_byte s)"

fun join :: "string \<Rightarrow> string list \<Rightarrow> string" where
  "join sep [] = []"
| "join sep [x] = x"
| "join sep (x # y # ys) = x @ sep @ join sep (y # ys)"

type_synonym URLSearchParams = "(string \<times> string) list"

definition append_param :: "string \<Rightarrow> string \<Rightarrow> URLSearchParams \<Rightarrow> URLSearchParams" where
  "append_param name v params = params @ [(name, v)]"

definition URLSearchParams_toString :: "URLSearchParams \<Rightarrow> string" where
  "URLSearchParams_toString params =
     join ''&'' (map (\<lambda>p. urlencoded_string (fst p) @ ''='' @ urlencoded_string (snd p)) params)"

text \<open>
  JavaScript values as far as the client builds or returns them. An object is the list
  of its own properties in insertion order; \<open>JUndefined\<close> is \<^verbatim>\<open>undefined\<close>.
\<close>

datatype jsval =
    JUndefined
  | JNull
  | JBool bool
  | JNum int
  | JStr string
  | JArr "jsval list"
  | JObj "(string \<times> jsval) list"

type_synonym jsobject = "(string \<times> jsval) list"

text \<open>Property read \<^verbatim>\<open>o.k\<close>: a missing property reads as \<^verbatim>\<open>undefined\<close>.\<close>

definition get_property :: "jsobject \<Rightarrow> string \<Rightarrow> jsval" where
  "get_property obj k = (case map_of obj k of None \<Rightarrow> JUndefined | Some v \<Rightarrow> v)"

text \<open>The operator \<^verbatim>\<open>a ?? b\<close>: \<^verbatim>\<open>b\<close> when \<^verbatim>\<open>a\<close> is null or undefined.\<close>

definition nullish :: "jsval \<Rightarrow> jsval \<Rightarrow> jsval" where
  "nullish a b = (if a = JUndefined \<or> a = JNull then b else a)"

text \<open>
  A property \<^verbatim>\<open>k: v\<close> inside an object literal, after what the literal holds so far:
  an existing property keeps its position and takes the new value, a new one is added
  last. This is \<open>AList.update\<close>.
\<close>

definition define_property :: "string \<Rightarrow> jsval \<Rightarrow> jsobject \<Rightarrow> jsobject" where
  "define_property k v obj = AList.update k v obj"

text \<open>
  \<^verbatim>\<open>JSON.stringify\<close>. Strings are quoted with the escapes of QuoteJSONString;
  a property whose value is \<^verbatim>\<open>undefined\<close> is left out of an object and written
  \<^verbatim>\<open>null\<close> in an array; \<^verbatim>\<open>JSON.stringify(undefined)\<close> is \<^verbatim>\<open>undefined\<close>
  (\<open>None\<close>).
\<close>

definition lower_hex_digit :: "nat \<Rightarrow> char" where
  "lower_hex_digit n = ''0123456789abcdef'' ! n"

definition json_escape_char :: "char \<Rightarrow> string" where
  "json_escape_char c =
     (if c = CHR 0x08 then [CHR 0x5C, CHR ''b'']
      else if c = CHR 0x09 then [CHR 0x5C, CHR ''t'']
      else if c = CHR 0x0A then [CHR 0x5C, CHR ''n'']
      else if c = CHR 0x0C then [CHR 0x5C, CHR ''f'']
      else if c = CHR 0x0D then [CHR 0x5C, CHR ''r'']
      else if c = CHR 0x22 then [CHR 0x5C, CHR 0x22]
      else if c = CHR 0x5C then [CHR 0x5C, CHR 0x5C]
      else if (of_char c :: nat) < 32
        then [CHR 0x5C, CHR ''u'', CHR ''0'', CHR ''0'',
              lower_hex_digit ((of_char c :: nat) div 16), lower_hex_digit ((of_char c :: nat) mod 16)]
      else [c])"

definition QuoteJSONString :: "string \<Rightarrow> string" where
  "QuoteJSONString s = [CHR 0x22] @ concat (map json_escape_char s) @ [CHR 0x22]"

fun SerializeJSONProperty :: "jsval \<Rightarrow> string option" where
  "SerializeJSONProperty JUndefined = None"
| "SerializeJSONProperty JNull = Some ''null''"
| "SerializeJSONProperty (JBool b) = Some (if b then ''true'' else ''false'')"
| "SerializeJSONProperty (JNum n) = Some (Number_toString n)"
| "SerializeJSONProperty (JStr s) = Some (QuoteJSONString s)"
| "SerializeJSONProperty (JArr xs) =
     Some (''['' @ join '','' (map (\<lambda>x. case SerializeJSONProperty x of None \<Rightarrow> ''null'' | Some s \<Rightarrow> s) xs) @ '']'')"
| "SerializeJSONProperty (JObj kvs) =
     Some (''{'' @ join '','' (concat (map (\<lambda>kv. case SerializeJSONProperty (snd kv) of
                                                  None \<Rightarrow> []
                                                | Some s \<Rightarrow> [QuoteJSONString (fst kv) @ '':'' @ s]) kvs)) @ ''}'')"

definition JSON_stringify :: "jsval \<Rightarrow> string option" where
  "JSON_stringify v = SerializeJSONProperty v"

subsection \<open>Configuration, clients and the HTTP transport\<close>

datatype ArrService = sonarr | radarr | lidarr | readarr | prowlarr

text \<open>The string that a value of the union type \<^verbatim>\<open>ArrService\<close> is at run time.\<close>

fun service_string :: "ArrService \<Rightarrow> string" where
  "service_string sonarr = ''sonarr''"
| "service_string radarr = ''radarr''"
| "service_string lidarr = ''lidarr''"
| "service_string readarr = ''readarr''"
| "service_string prowlarr = ''prowlarr''"

record ArrConfig =
  url :: string
  apiKey :: string

record ArrClient =
  config :: ArrConfig
  serviceName :: ArrService
  apiVersion :: string

text \<open>
  \<^verbatim>\<open>url.replace(/\/$/, '')\<close>: the pattern has no flags, so \<^verbatim>\<open>$\<close> matches at the end
  of the input only, and the one possible match is a final \<^verbatim>\<open>/\<close>.
\<close>

definition replace_trailing_slash :: "string \<Rightarrow> string" where
  "replace_trailing_slash s = (if s \<noteq> [] \<and> last s = CHR ''/'' then butlast s else s)"

definition ArrClient_new :: "ArrService \<Rightarrow> ArrConfig \<Rightarrow> ArrClient" where
  "ArrClient_new name cfg =
     \<lparr>config = \<lparr>url = replace_trailing_slash (url cfg), apiKey = apiKey cfg\<rparr>,
      serviceName = name,
      apiVersion = ''v3''\<rparr>"

definition SonarrClient :: "ArrConfig \<Rightarrow> ArrClient" where
  "SonarrClient cfg = ArrClient_new sonarr cfg"

definition RadarrClient :: "ArrConfig \<Rightarrow> ArrClient" where
  "RadarrClient cfg = ArrClient_new radarr cfg"

definition LidarrClient :: "ArrConfig \<Rightarrow> ArrClient" where
  "LidarrClient cfg = (ArrClient_new lidarr cfg)\<lparr>apiVersion := ''v1''\<rparr>"

definition ReadarrClient :: "ArrConfig \<Rightarrow> ArrClient" where
  "ReadarrClient cfg = (ArrClient_new readarr cfg)\<lparr>apiVersion := ''v1''\<rparr>"

definition ProwlarrClient :: "ArrConfig \<Rightarrow> ArrClient" where
  "ProwlarrClient cfg = (ArrClient_new prowlarr cfg)\<lparr>apiVersion := ''v1''\<rparr>"

text \<open>
  The header values that an object can hold under a name: a string, or the array that
  the spread of a pair array puts under an index.
\<close>

datatype header_value = HString string | HArray "string list"

text \<open>
  \<^verbatim>\<open>HeadersInit\<close>, the type of \<^verbatim>\<open>RequestInit.headers\<close>: a \<^verbatim>\<open>Headers\<close>
  instance with its header list, an array of name and value pairs, or a plain object.
\<close>

datatype HeadersInit =
    Headers_instance "(string \<times> string) list"
  | Header_pairs "(string \<times> string) list"
  | Header_record "string \<rightharpoonup> header_value"

text \<open>
  The second argument of \<^verbatim>\<open>fetch\<close>, as far as the client sets it; a field that is
  \<open>None\<close> is absent from the object. The field \<open>method'\<close> is \<^verbatim>\<open>method\<close>.
\<close>

record RequestInit =
  method' :: "string option"
  body :: "string option"
  headers :: "HeadersInit option"

text \<open>
  \<^verbatim>\<open>...(options.headers as Record<string, string> || {})\<close>: the cast does nothing at
  run time, and the spread copies the own enumerable properties of whatever
  \<^verbatim>\<open>options.headers\<close> is. A plain object gives its properties; a \<^verbatim>\<open>Headers\<close>
  instance has none, since its header list is internal; an array gives its elements
  under the indices \<^verbatim>\<open>0\<close>, \<^verbatim>\<open>1\<close>, ... as names; \<^verbatim>\<open>undefined\<close> gives
  \<^verbatim>\<open>{}\<close>.
\<close>

definition spread_headers :: "HeadersInit option \<Rightarrow> (string \<rightharpoonup> header_value)" where
  "spread_headers h =
     (case h of
        None \<Rightarrow> Map.empty
      | Some (Header_record m) \<Rightarrow> m
      | Some (Headers_instance hs) \<Rightarrow> Map.empty
      | Some (Header_pairs ps) \<Rightarrow>
          map_of (zip (map nat_toString [0..<length ps]) (map (\<lambda>p. HArray [fst p, snd p]) ps)))"

definition no_options :: RequestInit where
  "no_options = \<lparr>method' = None, body = None, headers = None\<rparr>"

record http_request =
  fetch_url :: string
  fetch_init :: RequestInit

text \<open>
  What the transport hands back: \<open>ok\<close>, \<open>status\<close> and \<open>statusText\<close> are the
  fields of the response, \<open>text_body\<close> is what \<^verbatim>\<open>response.text()\<close> resolves to and
  \<open>json_body\<close> what \<^verbatim>\<open>response.json()\<close> resolves to (\<open>None\<close> when the body is not
  JSON and the promise rejects).
\<close>

record Response =
  ok :: bool
  status :: nat
  statusText :: string
  text_body :: string
  json_body :: "jsval option"

datatype 'e fetch_result = Rejects 'e | Resolves Response

text \<open>
  The transport: the outcome of a call of \<^verbatim>\<open>fetch\<close> may depend on the request and
  on every request sent before it.
\<close>

type_synonym 'e transport = "http_request list \<Rightarrow> http_request \<Rightarrow> 'e fetch_result"

text \<open>
  How a call can fail: the \<^verbatim>\<open>Error\<close> that \<^verbatim>\<open>request\<close> throws itself, with its
  message; a rejection of \<^verbatim>\<open>fetch\<close>, handed on as it is; a rejection of
  \<^verbatim>\<open>response.json()\<close>.
\<close>

datatype 'e failure = ApiError string | FetchRejected 'e | JsonRejected

text \<open>
  The state that a method call runs in: the client object and the requests handed to
  \<^verbatim>\<open>fetch\<close> so far.
\<close>

record world =
  this :: ArrClient
  sent :: "http_request list"

type_synonym 'e method_result = "('e failure + jsval) \<times> world"

subsection \<open>The request dispatcher\<close>

definition request :: "'e transport \<Rightarrow> string \<Rightarrow> RequestInit \<Rightarrow> world \<Rightarrow> 'e method_result" where
  "request fetch endpoint options w =
     (let url' = url (config (this w)) @ ''/api/'' @ apiVersion (this w) @ endpoint;
          headers' = [''Content-Type'' \<mapsto> HString ''application/json'',
                      ''X-Api-Key'' \<mapsto> HString (apiKey (config (this w)))]
                     ++ spread_headers (headers options);
          rq = \<lparr>fetch_url = url', fetch_init = options\<lparr>headers := Some (Header_record headers')\<rparr>\<rparr>;
          w' = w\<lparr>sent := sent w @ [rq]\<rparr>
      in case fetch (sent w) rq of
           Rejects e \<Rightarrow> (Inl (FetchRejected e), w')
         | Resolves response \<Rightarrow>
             if \<not> ok response
             then (Inl (ApiError (service_string (serviceName (this w)) @ '' API error: ''
                                  @ nat_toString (status response) @ '' '' @ statusText response
                                  @ '' - '' @ text_body response)), w')
             else (case json_body response of
                     None \<Rightarrow> (Inl JsonRejected, w')
                   | Some v \<Rightarrow> (Inr v, w')))"

subsection \<open>Methods of \<^verbatim>\<open>ArrClient\<close>\<close>

definition getStatus :: "'e transport \<Rightarrow> world \<Rightarrow> 'e method_result" where
  "getStatus fetch = request fetch ''/system/status'' no_options"

definition getQueue :: "'e transport \<Rightarrow> world \<Rightarrow> 'e method_result" where
  "getQueue fetch =
     request fetch ''/queue?includeUnknownSeriesItems=true&includeUnknownMovieItems=true'' no_options"

text \<open>
  \<^verbatim>\<open>if (start) params.append('start', start)\<close> tests truthiness:
  \<^verbatim>\<open>undefined\<close> and the empty string both skip the parameter.
\<close>

definition append_if_truthy :: "string \<Rightarrow> string option \<Rightarrow> URLSearchParams \<Rightarrow> URLSearchParams" where
  "append_if_truthy name v params =
     (case v of None \<Rightarrow> params | Some s \<Rightarrow> if s \<noteq> [] then append_param name s params else params)"

definition getCalendar :: "'e transport \<Rightarrow> string option \<Rightarrow> string option \<Rightarrow> world \<Rightarrow> 'e method_result" where
  "getCalendar fetch start end' =
     (let params = append_if_truthy ''end'' end' (append_if_truthy ''start'' start []);
          query = (if URLSearchParams_toString params \<noteq> [] then ''?'' @ URLSearchParams_toString params else [])
      in request fetch (''/calendar'' @ query) no_options)"

definition getRootFolders :: "'e transport \<Rightarrow> world \<Rightarrow> 'e method_result" where
  "getRootFolders fetch = request fetch ''/rootfolder'' no_options"

definition getQualityProfiles :: "'e transport \<Rightarrow> world \<Rightarrow> 'e method_result" where
  "getQualityProfiles fetch = request fetch ''/qualityprofile'' no_options"

text \<open>\<^verbatim>\<open>try { await this.getStatus(); return true; } catch { return false; }\<close>\<close>

definition testConnection :: "'e transport \<Rightarrow> world \<Rightarrow> 'e method_result" where
  "testConnection fetch w =
     (case getStatus fetch w of
        (Inr v, w') \<Rightarrow> (Inr (JBool True), w')
      | (Inl e, w') \<Rightarrow> (Inr (JBool False), w'))"

subsection \<open>Methods of \<^verbatim>\<open>SonarrClient\<close>\<close>

definition post_options :: "string option \<Rightarrow> RequestInit" where
  "post_options b = \<lparr>method' = Some ''POST'', body = b, headers = None\<rparr>"

definition getSeries :: "'e transport \<Rightarrow> world \<Rightarrow> 'e method_result" where
  "getSeries fetch = request fetch ''/series'' no_options"

definition getSeriesById :: "'e transport \<Rightarrow> int \<Rightarrow> world \<Rightarrow> 'e method_result" where
  "getSeriesById fetch id' = request fetch (''/series/'' @ Number_toString id') no_options"

definition searchSeries :: "'e transport \<Rightarrow> string \<Rightarrow> world \<Rightarrow> 'e method_result" where
  "searchSeries fetch term' = request fetch (''/series/lookup?term='' @ encodeURIComponent term') no_options"

text \<open>
  The object literal that \<^verbatim>\<open>addSeries\<close> hands to \<^verbatim>\<open>JSON.stringify\<close>: the
  caller's properties first (\<^verbatim>\<open>...series\<close>), then \<^verbatim>\<open>monitored\<close>,
  \<^verbatim>\<open>seasonFolder\<close> and \<^verbatim>\<open>addOptions\<close> in this order. The literals of
  \<^verbatim>\<open>addMovie\<close>, \<^verbatim>\<open>addArtist\<close> and \<^verbatim>\<open>addAuthor\<close> are named in the same way.
\<close>

definition addSeries_payload :: "jsobject \<Rightarrow> jsobject" where
  "addSeries_payload series =
     define_property ''addOptions'' (JObj [(''searchForMissingEpisodes'', JBool True)])
       (define_property ''seasonFolder'' (nullish (get_property series ''seasonFolder'') (JBool True))
         (define_property ''monitored'' (nullish (get_property series ''monitored'') (JBool True))
           series))"

definition addSeries :: "'e transport \<Rightarrow> jsobject \<Rightarrow> world \<Rightarrow> 'e method_result" where
  "addSeries fetch series =
     request fetch ''/series'' (post_options (JSON_stringify (JObj (addSeries_payload series))))"

definition searchMissing :: "'e transport \<Rightarrow> int \<Rightarrow> world \<Rightarrow> 'e method_result" where
  "searchMissing fetch seriesId =
     request fetch ''/command''
       (post_options (JSON_stringify (JObj [(''name'', JStr ''SeriesSearch''), (''seriesId'', JNum seriesId)])))"

definition getEpisodes :: "'e transport \<Rightarrow> int \<Rightarrow> int option \<Rightarrow> world \<Rightarrow> 'e method_result" where
  "getEpisodes fetch seriesId seasonNumber =
     (let url' = ''/episode?seriesId='' @ Number_toString seriesId;
          url' = (case seasonNumber of
                    Some n \<Rightarrow> url' @ ''&seasonNumber='' @ Number_toString n
                  | None \<Rightarrow> url')
      in request fetch url' no_options)"

definition searchEpisode :: "'e transport \<Rightarrow> int list \<Rightarrow> world \<Rightarrow> 'e method_result" where
  "searchEpisode fetch episodeIds =
     request fetch ''/command''
       (post_options (JSON_stringify (JObj [(''name'', JStr ''EpisodeSearch''),
                                            (''episodeIds'', JArr (map JNum episodeIds))])))"

subsection \<open>Methods of \<^verbatim>\<open>RadarrClient\<close>\<close>

definition getMovies :: "'e transport \<Rightarrow> world \<Rightarrow> 'e method_result" where
  "getMovies fetch = request fetch ''/movie'' no_options"

definition getMovieById :: "'e transport \<Rightarrow> int \<Rightarrow> world \<Rightarrow> 'e method_result" where
  "getMovieById fetch id' = request fetch (''/movie/'' @ Number_toString id') no_options"

definition searchMovies :: "'e transport \<Rightarrow> string \<Rightarrow> world \<Rightarrow> 'e method_result" where
  "searchMovies fetch term' = request fetch (''/movie/lookup?term='' @ encodeURIComponent term') no_options"

definition addMovie_payload :: "jsobject \<Rightarrow> jsobject" where
  "addMovie_payload movie =
     define_property ''addOptions'' (JObj [(''searchForMovie'', JBool True)])
       (define_property ''monitored'' (nullish (get_property movie ''monitored'') (JBool True))
         movie)"

definition addMovie :: "'e transport \<Rightarrow> jsobject \<Rightarrow> world \<Rightarrow> 'e method_result" where
  "addMovie fetch movie =
     request fetch ''/movie'' (post_options (JSON_stringify (JObj (addMovie_payload movie))))"

definition searchMovie :: "'e transport \<Rightarrow> int \<Rightarrow> world \<Rightarrow> 'e method_result" where
  "searchMovie fetch movieId =
     request fetch ''/command''
       (post_options (JSON_stringify (JObj [(''name'', JStr ''MoviesSearch''),
                                            (''movieIds'', JArr [JNum movieId])])))"

subsection \<open>Methods of \<^verbatim>\<open>LidarrClient\<close>\<close>

definition getArtists :: "'e transport \<Rightarrow> world \<Rightarrow> 'e method_result" where
  "getArtists fetch = request fetch ''/artist'' no_options"

definition getArtistById :: "'e transport \<Rightarrow> int \<Rightarrow> world \<Rightarrow> 'e method_result" where
  "getArtistById fetch id' = request fetch (''/artist/'' @ Number_toString id') no_options"

definition searchArtists :: "'e transport \<Rightarrow> string \<Rightarrow> world \<Rightarrow> 'e method_result" where
  "searchArtists fetch term' = request fetch (''/artist/lookup?term='' @ encodeURIComponent term') no_options"

definition addArtist_payload :: "jsobject \<Rightarrow> jsobject" where
  "addArtist_payload artist =
     define_property ''addOptions'' (JObj [(''searchForMissingAlbums'', JBool True)])
       (define_property ''monitored'' (nullish (get_property artist ''monitored'') (JBool True))
         artist)"

definition addArtist :: "'e transport \<Rightarrow> jsobject \<Rightarrow> world \<Rightarrow> 'e method_result" where
  "addArtist fetch artist =
     request fetch ''/artist'' (post_options (JSON_stringify (JObj (addArtist_payload artist))))"

text \<open>\<^verbatim>\<open>artistId ? ... : '/album'\<close>: \<^verbatim>\<open>undefined\<close> and \<^verbatim>\<open>0\<close> are both falsy.\<close>

definition getAlbums :: "'e transport \<Rightarrow> int option \<Rightarrow> world \<Rightarrow> 'e method_result" where
  "getAlbums fetch artistId =
     (let url' = (case artistId of
                    None \<Rightarrow> ''/album''
                  | Some n \<Rightarrow> if n \<noteq> 0 then ''/album?artistId='' @ Number_toString n else ''/album'')
      in request fetch url' no_options)"

definition getAlbumById :: "'e transport \<Rightarrow> int \<Rightarrow> world \<Rightarrow> 'e method_result" where
  "getAlbumById fetch id' = request fetch (''/album/'' @ Number_toString id') no_options"

definition searchMissingAlbums :: "'e transport \<Rightarrow> int \<Rightarrow> world \<Rightarrow> 'e method_result" where
  "searchMissingAlbums fetch artistId =
     request fetch ''/command''
       (post_options (JSON_stringify (JObj [(''name'', JStr ''ArtistSearch''), (''artistId'', JNum artistId)])))"

definition searchAlbum :: "'e transport \<Rightarrow> int \<Rightarrow> world \<Rightarrow> 'e method_result" where
  "searchAlbum fetch albumId =
     request fetch ''/command''
       (post_options (JSON_stringify (JObj [(''name'', JStr ''AlbumSearch''),
                                            (''albumIds'', JArr [JNum albumId])])))"

definition LidarrClient_getCalendar :: "'e transport \<Rightarrow> string option \<Rightarrow> string option \<Rightarrow> world \<Rightarrow> 'e method_result" where
  "LidarrClient_getCalendar fetch start end' =
     (let params = append_if_truthy ''end'' end' (append_if_truthy ''start'' start []);
          query = (if URLSearchParams_toString params \<noteq> [] then ''?'' @ URLSearchParams_toString params else [])
      in request fetch (''/calendar'' @ query) no_options)"

subsection \<open>Methods of \<^verbatim>\<open>ReadarrClient\<close>\<close>

definition getAuthors :: "'e transport \<Rightarrow> world \<Rightarrow> 'e method_result" where
  "getAuthors fetch = request fetch ''/author'' no_options"

definition getAuthorById :: "'e transport \<Rightarrow> int \<Rightarrow> world \<Rightarrow> 'e method_result" where
  "getAuthorById fetch id' = request fetch (''/author/'' @ Number_toString id') no_options"

definition searchAuthors :: "'e transport \<Rightarrow> string \<Rightarrow> world \<Rightarrow> 'e method_result" where
  "searchAuthors fetch term' = request fetch (''/author/lookup?term='' @ encodeURIComponent term') no_options"

definition addAuthor_payload :: "jsobject \<Rightarrow> jsobject" where
  "addAuthor_payload author =
     define_property ''addOptions'' (JObj [(''searchForMissingBooks'', JBool True)])
       (define_property ''monitored'' (nullish (get_property author ''monitored'') (JBool True))
         author)"

definition addAuthor :: "'e transport \<Rightarrow> jsobject \<Rightarrow> world \<Rightarrow> 'e method_result" where
  "addAuthor fetch author =
     request fetch ''/author'' (post_options (JSON_stringify (JObj (addAuthor_payload author))))"

definition getBooks :: "'e transport \<Rightarrow> int option \<Rightarrow> world \<Rightarrow> 'e method_result" where
  "getBooks fetch authorId =
     (let url' = (case authorId of
                    None \<Rightarrow> ''/book''
                  | Some n \<Rightarrow> if n \<noteq> 0 then ''/book?authorId='' @ Number_toString n else ''/book'')
      in request fetch url' no_options)"

definition getBookById :: "'e transport \<Rightarrow> int \<Rightarrow> world \<Rightarrow> 'e method_result" where
  "getBookById fetch id' = request fetch (''/book/'' @ Number_toString id') no_options"

definition searchMissingBooks :: "'e transport \<Rightarrow> int \<Rightarrow> world \<Rightarrow> 'e method_result" where
  "searchMissingBooks fetch authorId =
     request fetch ''/command''
       (post_options (JSON_stringify (JObj [(''name'', JStr ''AuthorSearch''), (''authorId'', JNum authorId)])))"

definition searchBook :: "'e transport \<Rightarrow> int list \<Rightarrow> world \<Rightarrow> 'e method_result" where
  "searchBook fetch bookIds =
     request fetch ''/command''
       (post_options (JSON_stringify (JObj [(''name'', JStr ''BookSearch''),
                                            (''bookIds'', JArr (map JNum bookIds))])))"

definition ReadarrClient_getCalendar :: "'e transport \<Rightarrow> string option \<Rightarrow> string option \<Rightarrow> world \<Rightarrow> 'e method_result" where
  "ReadarrClient_getCalendar fetch start end' =
     (let params = append_if_truthy ''end'' end' (append_if_truthy ''start'' start []);
          query = (if URLSearchParams_toString params \<noteq> [] then ''?'' @ URLSearchParams_toString params else [])
      in request fetch (''/calendar'' @ query) no_options)"

subsection \<open>Methods of \<^verbatim>\<open>ProwlarrClient\<close>\<close>

definition getIndexers :: "'e transport \<Rightarrow> world \<Rightarrow> 'e method_result" where
  "getIndexers fetch = request fetch ''/indexer'' no_options"

definition testAllIndexers :: "'e transport \<Rightarrow> world \<Rightarrow> 'e method_result" where
  "testAllIndexers fetch = request fetch ''/indexer/testall'' (post_options None)"

definition testIndexer :: "'e transport \<Rightarrow> int \<Rightarrow> world \<Rightarrow> 'e method_result" where
  "testIndexer fetch indexerId =
     request fetch (''/indexer/'' @ Number_toString indexerId @ ''/test'') (post_options None)"

definition getIndexerStats :: "'e transport \<Rightarrow> world \<Rightarrow> 'e method_result" where
  "getIndexerStats fetch = request fetch ''/indexerstats'' no_options"

text \<open>
  \<^verbatim>\<open>new URLSearchParams({ query })\<close>, then one \<^verbatim>\<open>categories\<close> parameter for each
  category when the array is given (an array is truthy even when empty).
\<close>

definition search :: "'e transport \<Rightarrow> string \<Rightarrow> int list option \<Rightarrow> world \<Rightarrow> 'e method_result" where
  "search fetch query categories =
     (let params = [(''query'', query)];
          params = (case categories of
                      None \<Rightarrow> params
                    | Some cs \<Rightarrow> fold (\<lambda>c ps. append_param ''categories'' (Number_toString c) ps) cs params)
      in request fetch (''/search?'' @ URLSearchParams_toString params) no_options)"

subsection \<open>Method calls and sequences of them\<close>

datatype method_call =
    Call_getStatus
  | Call_getQueue
  | Call_getCalendar "string option" "string option"
  | Call_getRootFolders
  | Call_getQualityProfiles
  | Call_testConnection
  | Call_getSeries
  | Call_getSeriesById int
  | Call_searchSeries string
  | Call_addSeries jsobject
  | Call_searchMissing int
  | Call_getEpisodes int "int option"
  | Call_searchEpisode "int list"
  | Call_getMovies
  | Call_getMovieById int
  | Call_searchMovies string
  | Call_addMovie jsobject
  | Call_searchMovie int
  | Call_getArtists
  | Call_getArtistById int
  | Call_searchArtists string
  | Call_addArtist jsobject
  | Call_getAlbums "int option"
  | Call_getAlbumById int
  | Call_searchMissingAlbums int
  | Call_searchAlbum int
  | Call_LidarrClient_getCalendar "string option" "string option"
  | Call_getAuthors
  | Call_getAuthorById int
  | Call_searchAuthors string
  | Call_addAuthor jsobject
  | Call_getBooks "int option"
  | Call_getBookById int
  | Call_searchMissingBooks int
  | Call_searchBook "int list"
  | Call_ReadarrClient_getCalendar "string option" "string option"
  | Call_getIndexers
  | Call_testAllIndexers
  | Call_testIndexer int
  | Call_getIndexerStats
  | Call_search string "int list option"

primrec invoke :: "'e transport \<Rightarrow> method_call \<Rightarrow> world \<Rightarrow> 'e method_result" where
  "invoke fetch Call_getStatus = getStatus fetch"
| "invoke fetch Call_getQueue = getQueue fetch"
| "invoke fetch (Call_getCalendar start end') = getCalendar fetch start end'"
| "invoke fetch Call_getRootFolders = getRootFolders fetch"
| "invoke fetch Call_getQualityProfiles = getQualityProfiles fetch"
| "invoke fetch Call_testConnection = testConnection fetch"
| "invoke fetch Call_getSeries = getSeries fetch"
| "invoke fetch (Call_getSeriesById id') = getSeriesById fetch id'"
| "invoke fetch (Call_searchSeries term') = searchSeries fetch term'"
| "invoke fetch (Call_addSeries series) = addSeries fetch series"
| "invoke fetch (Call_searchMissing seriesId) = searchMissing fetch seriesId"
| "invoke fetch (Call_getEpisodes seriesId seasonNumber) = getEpisodes fetch seriesId seasonNumber"
| "invoke fetch (Call_searchEpisode episodeIds) = searchEpisode fetch episodeIds"
| "invoke fetch Call_getMovies = getMovies fetch"
| "invoke fetch (Call_getMovieById id') = getMovieById fetch id'"
| "invoke fetch (Call_searchMovies term') = searchMovies fetch term'"
| "invoke fetch (Call_addMovie movie) = addMovie fetch movie"
| "invoke fetch (Call_searchMovie movieId) = searchMovie fetch movieId"
| "invoke fetch Call_getArtists = getArtists fetch"
| "invoke fetch (Call_getArtistById id') = getArtistById fetch id'"
| "invoke fetch (Call_searchArtists term') = searchArtists fetch term'"
| "invoke fetch (Call_addArtist artist) = addArtist fetch artist"
| "invoke fetch (Call_getAlbums artistId) = getAlbums fetch artistId"
| "invoke fetch (Call_getAlbumById id') = getAlbumById fetch id'"
| "invoke fetch (Call_searchMissingAlbums artistId) = searchMissingAlbums fetch artistId"
| "invoke fetch (Call_searchAlbum albumId) = searchAlbum fetch albumId"
| "invoke fetch (Call_LidarrClient_getCalendar start end') = LidarrClient_getCalendar fetch start end'"
| "invoke fetch Call_getAuthors = getAuthors fetch"
| "invoke fetch (Call_getAuthorById id') = getAuthorById fetch id'"
| "invoke fetch (Call_searchAuthors term') = searchAuthors fetch term'"
| "invoke fetch (Call_addAuthor author) = addAuthor fetch author"
| "invoke fetch (Call_getBooks authorId) = getBooks fetch authorId"
| "invoke fetch (Call_getBookById id') = getBookById fetch id'"
| "invoke fetch (Call_searchMissingBooks authorId) = searchMissingBooks fetch authorId"
| "invoke fetch (Call_searchBook bookIds) = searchBook fetch bookIds"
| "invoke fetch (Call_ReadarrClient_getCalendar start end') = ReadarrClient_getCalendar fetch start end'"
| "invoke fetch Call_getIndexers = getIndexers fetch"
| "invoke fetch Call_testAllIndexers = testAllIndexers fetch"
| "invoke fetch (Call_testIndexer indexerId) = testIndexer fetch indexerId"
| "invoke fetch Call_getIndexerStats = getIndexerStats fetch"
| "invoke fetch (Call_search query categories) = search fetch query categories"

text \<open>A sequence of calls on one client, each awaited before the next starts.\<close>

fun run :: "'e transport \<Rightarrow> method_call list \<Rightarrow> world \<Rightarrow> ('e failure + jsval) list \<times> world" where
  "run fetch [] w = ([], w)"
| "run fetch (c # cs) w =
     (case invoke fetch c w of
        (r, w') \<Rightarrow> (case run fetch cs w' of (rs, w'') \<Rightarrow> (r # rs, w'')))"

text \<open>The endpoint that each method hands to \<^verbatim>\<open>request\<close> as its first argument.\<close>

primrec endpoint_of :: "method_call \<Rightarrow> string" where
  "endpoint_of Call_getStatus = ''/system/status''"
| "endpoint_of Call_getQueue = ''/queue?includeUnknownSeriesItems=true&includeUnknownMovieItems=true''"
| "endpoint_of (Call_getCalendar start end') =
     (let params = append_if_truthy ''end'' end' (append_if_truthy ''start'' start []);
          query = (if URLSearchParams_toString params \<noteq> [] then ''?'' @ URLSearchParams_toString params else [])
      in ''/calendar'' @ query)"
| "endpoint_of Call_getRootFolders = ''/rootfolder''"
| "endpoint_of Call_getQualityProfiles = ''/qualityprofile''"
| "endpoint_of Call_testConnection = ''/system/status''"
| "endpoint_of Call_getSeries = ''/series''"
| "endpoint_of (Call_getSeriesById id') = ''/series/'' @ Number_toString id'"
| "endpoint_of (Call_searchSeries term') = ''/series/lookup?term='' @ encodeURIComponent term'"
| "endpoint_of (Call_addSeries series) = ''/series''"
| "endpoint_of (Call_searchMissing seriesId) = ''/command''"
| "endpoint_of (Call_getEpisodes seriesId seasonNumber) =
     (case seasonNumber of
        Some n \<Rightarrow> ''/episode?seriesId='' @ Number_toString seriesId @ ''&seasonNumber='' @ Number_toString n
      | None \<Rightarrow> ''/episode?seriesId='' @ Number_toString seriesId)"
| "endpoint_of (Call_searchEpisode episodeIds) = ''/command''"
| "endpoint_of Call_getMovies = ''/movie''"
| "endpoint_of (Call_getMovieById id') = ''/movie/'' @ Number_toString id'"
| "endpoint_of (Call_searchMovies term') = ''/movie/lookup?term='' @ encodeURIComponent term'"
| "endpoint_of (Call_addMovie movie) = ''/movie''"
| "endpoint_of (Call_searchMovie movieId) = ''/command''"
| "endpoint_of Call_getArtists = ''/artist''"
| "endpoint_of (Call_getArtistById id') = ''/artist/'' @ Number_toString id'"
| "endpoint_of (Call_searchArtists term') = ''/artist/lookup?term='' @ encodeURIComponent term'"
| "endpoint_of (Call_addArtist artist) = ''/artist''"
| "endpoint_of (Call_getAlbums artistId) =
     (case artistId of
        None \<Rightarrow> ''/album''
      | Some n \<Rightarrow> if n \<noteq> 0 then ''/album?artistId='' @ Number_toString n else ''/album'')"
| "endpoint_of (Call_getAlbumById id') = ''/album/'' @ Number_toString id'"
| "endpoint_of (Call_searchMissingAlbums artistId) = ''/command''"
| "endpoint_of (Call_searchAlbum albumId) = ''/command''"
| "endpoint_of (Call_LidarrClient_getCalendar start end') =
     (let params = append_if_truthy ''end'' end' (append_if_truthy ''start'' start []);
          query = (if URLSearchParams_toString params \<noteq> [] then ''?'' @ URLSearchParams_toString params else [])
      in ''/calendar'' @ query)"
| "endpoint_of Call_getAuthors = ''/author''"
| "endpoint_of (Call_getAuthorById id') = ''/author/'' @ Number_toString id'"
| "endpoint_of (Call_searchAuthors term') = ''/author/lookup?term='' @ encodeURIComponent term'"
| "endpoint_of (Call_addAuthor author) = ''/author''"
| "endpoint_of (Call_getBooks authorId) =
     (case authorId of
        None \<Rightarrow> ''/book''
      | Some n \<Rightarrow> if n \<noteq> 0 then ''/book?authorId='' @ Number_toString n else ''/book'')"
| "endpoint_of (Call_getBookById id') = ''/book/'' @ Number_toString id'"
| "endpoint_of (Call_searchMissingBooks authorId) = ''/command''"
| "endpoint_of (Call_searchBook bookIds) = ''/command''"
| "endpoint_of (Call_ReadarrClient_getCalendar start end') =
     (let params = append_if_truthy ''end'' end' (append_if_truthy ''start'' start []);
          query = (if URLSearchParams_toString params \<noteq> [] then ''?'' @ URLSearchParams_toString params else [])
      in ''/calendar'' @ query)"
| "endpoint_of Call_getIndexers = ''/indexer''"
| "endpoint_of Call_testAllIndexers = ''/indexer/testall''"
| "endpoint_of (Call_testIndexer indexerId) = ''/indexer/'' @ Number_toString indexerId @ ''/test''"
| "endpoint_of Call_getIndexerStats = ''/indexerstats''"
| "endpoint_of (Call_search query categories) =
     ''/search?'' @ URLSearchParams_toString
        (case categories of
           None \<Rightarrow> [(''query'', query)]
         | Some cs \<Rightarrow> fold (\<lambda>c ps. append_param ''categories'' (Number_toString c) ps) cs [(''query'', query)])"

text \<open>
  The classes that a client can be constructed from, and \<^verbatim>\<open>new K(...)\<close>; the base
  class takes the service name as an argument.
\<close>

datatype client_class =
    Class_ArrClient ArrService
  | Class_SonarrClient
  | Class_RadarrClient
  | Class_LidarrClient
  | Class_ReadarrClient
  | Class_ProwlarrClient

primrec new :: "client_class \<Rightarrow> ArrConfig \<Rightarrow> ArrClient" where
  "new (Class_ArrClient name) cfg = ArrClient_new name cfg"
| "new Class_SonarrClient cfg = SonarrClient cfg"
| "new Class_RadarrClient cfg = RadarrClient cfg"
| "new Class_LidarrClient cfg = LidarrClient cfg"
| "new Class_ReadarrClient cfg = ReadarrClient cfg"
| "new Class_ProwlarrClient cfg = ProwlarrClient cfg"

subsection \<open>Transports and values for the examples\<close>

definition refusing :: "string transport" where
  "refusing log rq = Rejects ''ECONNREFUSED''"

definition answering :: "Response \<Rightarrow> string transport" where
  "answering r log rq = Resolves r"

definition boom :: Response where
  "boom = \<lparr>ok = False, status = 500, statusText = ''Internal Server Error'',
           text_body = ''boom'', json_body = None\<rparr>"

definition accepted :: "jsval \<Rightarrow> Response" where
  "accepted v = \<lparr>ok = True, status = 201, statusText = ''Created'', text_body = [], json_body = Some v\<rparr>"

definition fresh :: "ArrClient \<Rightarrow> world" where
  "fresh c = \<lparr>this = c, sent = []\<rparr>"

text \<open>Arguments of the \<^verbatim>\<open>add*\<close> methods.\<close>

definition series_minimal :: jsobject where
  "series_minimal = [(''tvdbId'', JNum 1), (''rootFolderPath'', JStr ''/tv''), (''qualityProfileId'', JNum 2)]"

definition series_flat :: jsobject where
  "series_flat = [(''tvdbId'', JNum 1), (''rootFolderPath'', JStr ''/tv''), (''qualityProfileId'', JNum 2),
                  (''seasonFolder'', JBool False)]"

definition movie_unmonitored :: jsobject where
  "movie_unmonitored = [(''tmdbId'', JNum 1), (''rootFolderPath'', JStr ''/movies''),
                        (''qualityProfileId'', JNum 2), (''monitored'', JBool False)]"

definition series_no_search :: jsobject where
  "series_no_search = [(''tvdbId'', JNum 1),
                       (''addOptions'', JObj [(''searchForMissingEpisodes'', JBool False)])]"

text \<open>The value that a request carries under a header name.\<close>

definition request_header :: "http_request \<Rightarrow> string \<Rightarrow> header_value option" where
  "request_header rq name =
     (case headers (fetch_init rq) of Some (Header_record m) \<Rightarrow> m name | _ \<Rightarrow> None)"



text \<open>
  The reading of "slash-trimmed" that removes every trailing \<^verbatim>\<open>/\<close>, to compare with
  what the constructor stores.
\<close>

definition slash_trimmed :: "string \<Rightarrow> string" where
  "slash_trimmed s = rev (dropWhile (\<lambda>c. c = CHR ''/'') (rev s))"

section \<open>Properties\<close>

subsection \<open>What a method call does to the client and to the transport\<close>

lemmas method_defs =
  getStatus_def getQueue_def getCalendar_def getRootFolders_def getQualityProfiles_def
  getSeries_def getSeriesById_def searchSeries_def addSeries_def searchMissing_def
  getEpisodes_def searchEpisode_def getMovies_def getMovieById_def searchMovies_def
  addMovie_def searchMovie_def getArtists_def getArtistById_def searchArtists_def
  addArtist_def getAlbums_def getAlbumById_def searchMissingAlbums_def searchAlbum_def
  LidarrClient_getCalendar_def getAuthors_def getAuthorById_def searchAuthors_def
  addAuthor_def getBooks_def getBookById_def searchMissingBooks_def searchBook_def
  ReadarrClient_getCalendar_def getIndexers_def testAllIndexers_def testIndexer_def
  getIndexerStats_def search_def

lemmas class_defs =
  SonarrClient_def RadarrClient_def LidarrClient_def ReadarrClient_def ProwlarrClient_def
  ArrClient_new_def

lemma request_snd:
  "snd (request fetch e opts w) =
     w\<lparr>sent := sent w @
        [\<lparr>fetch_url = url (config (this w)) @ ''/api/'' @ apiVersion (this w) @ e,
          fetch_init = opts\<lparr>headers := Some (Header_record ([''Content-Type'' \<mapsto> HString ''application/json'',
                      ''X-Api-Key'' \<mapsto> HString (apiKey (config (this w)))]
                     ++ spread_headers (headers opts)))\<rparr>\<rparr>]\<rparr>"
  by (simp add: request_def Let_def split: fetch_result.split option.split)

lemma request_fst:
  "fst (request fetch e opts w) =
     (case fetch (sent w)
             \<lparr>fetch_url = url (config (this w)) @ ''/api/'' @ apiVersion (this w) @ e,
              fetch_init = opts\<lparr>headers := Some (Header_record ([''Content-Type'' \<mapsto> HString ''application/json'',
                      ''X-Api-Key'' \<mapsto> HString (apiKey (config (this w)))]
                     ++ spread_headers (headers opts)))\<rparr>\<rparr> of
        Rejects x \<Rightarrow> Inl (FetchRejected x)
      | Resolves r \<Rightarrow>
          if \<not> ok r
          then Inl (ApiError (service_string (serviceName (this w)) @ '' API error: ''
                              @ nat_toString (status r) @ '' '' @ statusText r
                              @ '' - '' @ text_body r))
          else (case json_body r of None \<Rightarrow> Inl JsonRejected | Some v \<Rightarrow> Inr v))"
  by (simp add: request_def Let_def split: fetch_result.split option.split)

lemma testConnection_snd: "snd (testConnection fetch w) = snd (getStatus fetch w)"
  by (simp add: testConnection_def split: prod.split sum.split)

lemma invoke_is_request:
  "call \<noteq> Call_testConnection \<Longrightarrow>
     \<exists>opts. \<forall>fetch w. invoke fetch call w = request fetch (endpoint_of call) opts w"
  by (cases call) (auto simp add: method_defs Let_def split: option.split)

lemma invoke_snd:
  "\<exists>opts. \<forall>fetch w. snd (invoke fetch call w) = snd (request fetch (endpoint_of call) opts w)"
proof (cases "call = Call_testConnection")
  case True
  then show ?thesis by (auto simp add: testConnection_snd getStatus_def)
next
  case False
  from invoke_is_request [OF this] show ?thesis by metis
qed

lemma invoke_last_headers:
  "sent (snd (invoke fetch call w)) \<noteq> [] \<and>
   headers (fetch_init (last (sent (snd (invoke fetch call w))))) =
     Some (Header_record [''Content-Type'' \<mapsto> HString ''application/json'',
                          ''X-Api-Key'' \<mapsto> HString (apiKey (config (this w)))])"
  by (cases call)
     (simp_all add: method_defs testConnection_snd request_snd no_options_def post_options_def
        spread_headers_def Let_def split: option.split)

lemma invoke_this: "this (snd (invoke (fetch :: 'a transport) call w)) = this w"
proof -
  from invoke_snd [of call] obtain opts
    where "\<forall>(fetch :: 'a transport) w. snd (invoke fetch call w) = snd (request fetch (endpoint_of call) opts w)"
    by blast
  then have "snd (invoke fetch call w) = snd (request fetch (endpoint_of call) opts w)"
    by blast
  then show ?thesis by (simp add: request_snd)
qed

lemma invoke_urls:
  "map fetch_url (sent (snd (invoke (fetch :: 'a transport) call w))) =
     map fetch_url (sent w) @ [url (config (this w)) @ ''/api/'' @ apiVersion (this w) @ endpoint_of call]"
proof -
  from invoke_snd [of call] obtain opts
    where "\<forall>(fetch :: 'a transport) w. snd (invoke fetch call w) = snd (request fetch (endpoint_of call) opts w)"
    by blast
  then have "snd (invoke fetch call w) = snd (request fetch (endpoint_of call) opts w)"
    by blast
  then show ?thesis by (simp add: request_snd)
qed

lemma new_url: "url (config (new k cfg)) = replace_trailing_slash (url cfg)"
  by (cases k) (simp_all add: class_defs)

lemma new_apiKey: "apiKey (config (new k cfg)) = apiKey cfg"
  by (cases k) (simp_all add: class_defs)

lemma new_apiVersion:
  "apiVersion (new k cfg) =
     (if k \<in> {Class_LidarrClient, Class_ReadarrClient, Class_ProwlarrClient} then ''v1'' else ''v3'')"
  by (cases k) (simp_all add: class_defs)

lemma replace_trailing_slash_snoc: "replace_trailing_slash (s @ ''/'') = s"
  by (simp add: replace_trailing_slash_def)

lemma replace_trailing_slash_other: "(\<And>t. s \<noteq> t @ ''/'') \<Longrightarrow> replace_trailing_slash s = s"
  by (cases s rule: rev_cases) (auto simp add: replace_trailing_slash_def)

lemma slash_trimmed_single:
  assumes "\<And>t. s \<noteq> t @ ''//''"
  shows "replace_trailing_slash s = slash_trimmed s"
proof (cases s rule: rev_cases)
  case Nil
  then show ?thesis by (simp add: replace_trailing_slash_def slash_trimmed_def)
next
  case (snoc t c)
  show ?thesis
  proof (cases "c = CHR ''/''")
    case False
    with snoc show ?thesis by (simp add: replace_trailing_slash_def slash_trimmed_def)
  next
    case True
    with snoc assms have "\<And>u. t \<noteq> u @ ''/''" by auto
    then have "dropWhile (\<lambda>c. c = CHR ''/'') (rev t) = rev t"
      by (cases t rule: rev_cases) auto
    with snoc True show ?thesis by (simp add: replace_trailing_slash_def slash_trimmed_def)
  qed
qed

subsection \<open>Request URLs\<close>

text \<open>
  Claim C1, as stated, with "slash-trimmed" read as every trailing \<^verbatim>\<open>/\<close> removed: it
  fails at the base URL \<^verbatim>\<open>http://h//\<close>, where the request goes to
  \<^verbatim>\<open>http://h//api/v3/system/status\<close>.
\<close>

theorem request_url_not_slash_trimmed:
  "map fetch_url (sent (snd (invoke refusing Call_getStatus
       (fresh (new Class_SonarrClient \<lparr>url = ''http://h//'', apiKey = ''k''\<rparr>))))) =
     [''http://h//api/v3/system/status''] \<and>
   [slash_trimmed ''http://h//'' @ ''/api/'' @ ''v3'' @ endpoint_of Call_getStatus] =
     [''http://h/api/v3/system/status''] \<and>
   map fetch_url (sent (snd (invoke refusing Call_getStatus
       (fresh (new Class_SonarrClient \<lparr>url = ''http://h//'', apiKey = ''k''\<rparr>))))) \<noteq>
     [slash_trimmed ''http://h//'' @ ''/api/'' @ ''v3'' @ endpoint_of Call_getStatus]"
  by (simp add: fresh_def class_defs getStatus_def request_def Let_def refusing_def
        replace_trailing_slash_def slash_trimmed_def)

text \<open>
  Claim C1, amended. For every method call on a client constructed from any
  configuration, the one request that the call issues goes to the stored base URL
  (the configured URL with at most one trailing \<^verbatim>\<open>/\<close> removed), then
  \<^verbatim>\<open>/api/\<close>, the version and the endpoint; the version is \<^verbatim>\<open>v1\<close> for
  \<^verbatim>\<open>LidarrClient\<close>, \<^verbatim>\<open>ReadarrClient\<close> and \<^verbatim>\<open>ProwlarrClient\<close> and
  \<^verbatim>\<open>v3\<close> otherwise. The stored base URL is the slash-trimmed one whenever the
  configured URL does not end in \<^verbatim>\<open>//\<close>.
\<close>

theorem request_url_of_every_method:
  "this w = new k cfg \<Longrightarrow>
     map fetch_url (sent (snd (invoke fetch call w))) =
       map fetch_url (sent w) @
         [replace_trailing_slash (url cfg) @ ''/api/''
            @ (if k \<in> {Class_LidarrClient, Class_ReadarrClient, Class_ProwlarrClient} then ''v1'' else ''v3'')
            @ endpoint_of call] \<and>
     ((\<forall>t. url cfg \<noteq> t @ ''//'') \<longrightarrow> replace_trailing_slash (url cfg) = slash_trimmed (url cfg))"
  by (simp add: invoke_urls new_url new_apiVersion slash_trimmed_single del: insert_iff)

text \<open>At the base URL \<^verbatim>\<open>http://h/\<close>, with a Lidarr client and \<^verbatim>\<open>getAlbumById(12)\<close>.\<close>

theorem request_url_of_every_method_witness:
  "this (fresh (new Class_LidarrClient \<lparr>url = ''http://h/'', apiKey = ''k''\<rparr>))
     = new Class_LidarrClient \<lparr>url = ''http://h/'', apiKey = ''k''\<rparr> \<and>
   map fetch_url (sent (snd (invoke refusing (Call_getAlbumById 12)
       (fresh (new Class_LidarrClient \<lparr>url = ''http://h/'', apiKey = ''k''\<rparr>))))) =
     [''http://h/api/v1/album/12''] \<and>
   (\<forall>t. ''http://h/'' \<noteq> t @ ''//'') \<and>
   slash_trimmed ''http://h/'' = ''http://h''"
proof -
  have w: "this (fresh (new Class_LidarrClient \<lparr>url = ''http://h/'', apiKey = ''k''\<rparr>))
     = new Class_LidarrClient \<lparr>url = ''http://h/'', apiKey = ''k''\<rparr>"
    by (simp add: fresh_def)
  have n: "\<forall>t. ''http://h/'' \<noteq> t @ ''//''"
  proof
    fix t :: string
    show "''http://h/'' \<noteq> t @ ''//''"
      by (cases t rule: rev_cases) auto
  qed
  from request_url_of_every_method [OF w, of refusing "Call_getAlbumById 12"] n w
  show ?thesis
    by (simp add: fresh_def replace_trailing_slash_def Number_toString_def)
qed

text \<open>
  Claim C10. The constructor removes at most one trailing \<^verbatim>\<open>/\<close>: an input
  \<open>s @ ''/''\<close> is stored as \<open>s\<close>, an input that does not end in \<^verbatim>\<open>/\<close> is stored
  unchanged, and an input \<open>s @ ''//''\<close> is stored as \<open>s @ ''/''\<close>, so that the URL of
  every request of every method of a client built from it has \<^verbatim>\<open>//\<close> before
  \<^verbatim>\<open>api\<close>.
\<close>

theorem constructor_removes_at_most_one_slash:
  "(url cfg = s @ ''/'' \<longrightarrow> url (config (new k cfg)) = s) \<and>
   ((\<forall>t. url cfg \<noteq> t @ ''/'') \<longrightarrow> url (config (new k cfg)) = url cfg) \<and>
   (url cfg = s @ ''//'' \<longrightarrow>
      url (config (new k cfg)) = s @ ''/'' \<and>
      (this w = new k cfg \<longrightarrow>
         map fetch_url (sent (snd (invoke fetch call w))) =
           map fetch_url (sent w) @ [s @ ''//api/'' @ apiVersion (new k cfg) @ endpoint_of call]))"
proof (intro conjI impI)
  assume "url cfg = s @ ''/''"
  then show "url (config (new k cfg)) = s"
    by (simp add: new_url replace_trailing_slash_snoc)
next
  assume "\<forall>t. url cfg \<noteq> t @ ''/''"
  then show "url (config (new k cfg)) = url cfg"
    by (simp add: new_url replace_trailing_slash_other)
next
  assume "url cfg = s @ ''//''"
  then have "url cfg = (s @ ''/'') @ ''/''" by simp
  then show "url (config (new k cfg)) = s @ ''/''"
    unfolding new_url by (simp only: replace_trailing_slash_snoc)
next
  assume a: "url cfg = s @ ''//''" and w: "this w = new k cfg"
  from a have "url cfg = (s @ ''/'') @ ''/''" by simp
  then have "url (config (new k cfg)) = s @ ''/''"
    unfolding new_url by (simp only: replace_trailing_slash_snoc)
  with w show "map fetch_url (sent (snd (invoke fetch call w))) =
           map fetch_url (sent w) @ [s @ ''//api/'' @ apiVersion (new k cfg) @ endpoint_of call]"
    by (simp add: invoke_urls)
qed

text \<open>At the base URL \<^verbatim>\<open>http://h//\<close>, with a Sonarr client and \<^verbatim>\<open>getStatus\<close>.\<close>

theorem constructor_removes_at_most_one_slash_witness:
  "url \<lparr>url = ''http://h//'', apiKey = ''k''\<rparr> = ''http://h'' @ ''//'' \<and>
   url (config (new Class_SonarrClient \<lparr>url = ''http://h//'', apiKey = ''k''\<rparr>)) = ''http://h/'' \<and>
   this (fresh (new Class_SonarrClient \<lparr>url = ''http://h//'', apiKey = ''k''\<rparr>))
     = new Class_SonarrClient \<lparr>url = ''http://h//'', apiKey = ''k''\<rparr> \<and>
   map fetch_url (sent (snd (invoke refusing Call_getStatus
       (fresh (new Class_SonarrClient \<lparr>url = ''http://h//'', apiKey = ''k''\<rparr>))))) =
     [''http://h//api/v3/system/status'']"
  using constructor_removes_at_most_one_slash
    [of "\<lparr>url = ''http://h//'', apiKey = ''k''\<rparr>" "''http://h''" Class_SonarrClient
        "fresh (new Class_SonarrClient \<lparr>url = ''http://h//'', apiKey = ''k''\<rparr>)"
        refusing Call_getStatus]
  by (simp add: fresh_def class_defs replace_trailing_slash_def)

subsection \<open>Request headers\<close>

lemma request_sent_last:
  "sent (snd (request fetch e opts w)) \<noteq> [] \<and>
   request_header (last (sent (snd (request fetch e opts w)))) name =
     ([''Content-Type'' \<mapsto> HString ''application/json'',
       ''X-Api-Key'' \<mapsto> HString (apiKey (config (this w)))]
      ++ spread_headers (headers opts)) name"
  by (simp add: request_snd request_header_def)

text \<open>
  With no headers of the caller, or with headers given as a plain object, the request
  carries the fixed pair merged with the caller's properties, and the caller's value
  stands where the names collide.
\<close>

lemma request_header_of_record:
  assumes "headers opts = None \<and> m = Map.empty \<or> headers opts = Some (Header_record m)"
  shows "request_header (last (sent (snd (request fetch e opts w)))) name =
           (case m name of
              Some v \<Rightarrow> Some v
            | None \<Rightarrow> if name = ''Content-Type'' then Some (HString ''application/json'')
                      else if name = ''X-Api-Key'' then Some (HString (apiKey (config (this w))))
                      else None)"
proof -
  from assms have "spread_headers (headers opts) = m"
    by (elim disjE conjE) (simp_all add: spread_headers_def)
  then show ?thesis
    by (simp add: request_sent_last map_add_def split: option.split)
qed

text \<open>
  With headers given as a \<^verbatim>\<open>Headers\<close> instance the request carries the fixed pair
  alone, whatever the instance holds.
\<close>

lemma request_header_of_instance:
  assumes "headers opts = Some (Headers_instance hs)"
  shows "request_header (last (sent (snd (request fetch e opts w)))) name =
           (if name = ''Content-Type'' then Some (HString ''application/json'')
            else if name = ''X-Api-Key'' then Some (HString (apiKey (config (this w))))
            else None)"
  using assms by (simp add: request_sent_last spread_headers_def)

text \<open>
  Given as an array of pairs, the caller's headers arrive under the names \<^verbatim>\<open>0\<close>,
  \<^verbatim>\<open>1\<close>, ..., each with the pair as its value, beside the fixed pair.
\<close>

lemma request_header_of_pairs:
  "request_header (last (sent (snd (request refusing ''/movie''
      \<lparr>method' = None, body = None, headers = Some (Header_pairs [(''X-Api-Key'', ''other'')])\<rparr>
      (fresh (new Class_RadarrClient \<lparr>url = ''http://h'', apiKey = ''secret''\<rparr>))))))
      ''X-Api-Key'' = Some (HString ''secret'') \<and>
   request_header (last (sent (snd (request refusing ''/movie''
      \<lparr>method' = None, body = None, headers = Some (Header_pairs [(''X-Api-Key'', ''other'')])\<rparr>
      (fresh (new Class_RadarrClient \<lparr>url = ''http://h'', apiKey = ''secret''\<rparr>))))))
      ''0'' = Some (HArray [''X-Api-Key'', ''other''])"
  by (simp add: request_snd request_header_def spread_headers_def fresh_def class_defs)

text \<open>
  No public method passes headers of its own: every method call on a constructed client
  sends exactly the fixed pair, with the key of the configuration.
\<close>

lemma method_call_headers:
  assumes "this w = new k cfg"
  shows "sent (snd (invoke fetch call w)) \<noteq> [] \<and>
         request_header (last (sent (snd (invoke fetch call w)))) name =
           (if name = ''Content-Type'' then Some (HString ''application/json'')
            else if name = ''X-Api-Key'' then Some (HString (apiKey cfg))
            else None)"
proof -
  from invoke_last_headers [of fetch call w] assms show ?thesis
    by (simp add: request_header_def new_apiKey)
qed


subsection \<open>The bodies of the \<^verbatim>\<open>add*\<close> requests\<close>

lemma get_property_define_same: "get_property (define_property k v obj) k = v"
  by (simp add: get_property_def define_property_def update_conv')

lemma get_property_define_other:
  "k' \<noteq> k \<Longrightarrow> get_property (define_property k v obj) k' = get_property obj k'"
  by (simp add: get_property_def define_property_def update_conv')

lemma nullish_missing: "map_of obj k = None \<Longrightarrow> nullish (get_property obj k) d = d"
  by (simp add: nullish_def get_property_def)

lemma nullish_bool: "map_of obj k = Some (JBool b) \<Longrightarrow> nullish (get_property obj k) d = JBool b"
  by (simp add: nullish_def get_property_def)

lemma addSeries_payload_monitored:
  "get_property (addSeries_payload p) ''monitored'' = nullish (get_property p ''monitored'') (JBool True)"
  by (simp add: addSeries_payload_def get_property_define_same get_property_define_other)

lemma addSeries_payload_seasonFolder:
  "get_property (addSeries_payload p) ''seasonFolder'' = nullish (get_property p ''seasonFolder'') (JBool True)"
  by (simp add: addSeries_payload_def get_property_define_same get_property_define_other)

lemma addSeries_payload_addOptions:
  "get_property (addSeries_payload p) ''addOptions'' = JObj [(''searchForMissingEpisodes'', JBool True)]"
  by (simp add: addSeries_payload_def get_property_define_same)

lemma addMovie_payload_monitored:
  "get_property (addMovie_payload p) ''monitored'' = nullish (get_property p ''monitored'') (JBool True)"
  by (simp add: addMovie_payload_def get_property_define_same get_property_define_other)

lemma addMovie_payload_addOptions:
  "get_property (addMovie_payload p) ''addOptions'' = JObj [(''searchForMovie'', JBool True)]"
  by (simp add: addMovie_payload_def get_property_define_same)

lemma addArtist_payload_monitored:
  "get_property (addArtist_payload p) ''monitored'' = nullish (get_property p ''monitored'') (JBool True)"
  by (simp add: addArtist_payload_def get_property_define_same get_property_define_other)

lemma addArtist_payload_addOptions:
  "get_property (addArtist_payload p) ''addOptions'' = JObj [(''searchForMissingAlbums'', JBool True)]"
  by (simp add: addArtist_payload_def get_property_define_same)

lemma addAuthor_payload_monitored:
  "get_property (addAuthor_payload p) ''monitored'' = nullish (get_property p ''monitored'') (JBool True)"
  by (simp add: addAuthor_payload_def get_property_define_same get_property_define_other)

lemma addAuthor_payload_addOptions:
  "get_property (addAuthor_payload p) ''addOptions'' = JObj [(''searchForMissingBooks'', JBool True)]"
  by (simp add: addAuthor_payload_def get_property_define_same)

lemma request_bodies:
  "map (\<lambda>rq. (method' (fetch_init rq), body (fetch_init rq))) (sent (snd (request fetch e opts w))) =
     map (\<lambda>rq. (method' (fetch_init rq), body (fetch_init rq))) (sent w) @ [(method' opts, body opts)]"
  by (simp add: request_snd)

lemma filter_update_distinct:
  "distinct (map fst al) \<Longrightarrow> filter (\<lambda>kv. fst kv = k) (AList.update k v al) = [(k, v)]"
proof (induction al)
  case Nil
  then show ?case by simp
next
  case (Cons p ps)
  show ?case
  proof (cases "fst p = k")
    case True
    from Cons.prems True have "k \<notin> fst ` set ps" by auto
    then have "\<forall>q \<in> set ps. fst q \<noteq> k" by (metis imageI)
    then have "filter (\<lambda>kv. fst kv = k) ps = []" by (simp add: filter_empty_conv)
    with True show ?thesis by simp
  next
    case False
    with Cons show ?thesis by simp
  qed
qed

lemma filter_define_distinct:
  "distinct (map fst obj) \<Longrightarrow> filter (\<lambda>kv. fst kv = k) (define_property k v obj) = [(k, v)]"
  by (simp add: define_property_def filter_update_distinct)

lemma distinct_define: "distinct (map fst obj) \<Longrightarrow> distinct (map fst (define_property k v obj))"
  by (simp add: define_property_def distinct_update)

text \<open>
  Claim C3, as stated, fails: an argument of \<^verbatim>\<open>addSeries\<close> without a
  \<^verbatim>\<open>monitored\<close> field but with \<^verbatim>\<open>seasonFolder: false\<close> is posted with
  \<^verbatim>\<open>seasonFolder: false\<close>.
\<close>

theorem addSeries_keeps_seasonFolder_false:
  \<open>map_of series_flat ''monitored'' = None \<and>
   get_property (addSeries_payload series_flat) ''seasonFolder'' = JBool False \<and>
   get_property (addSeries_payload series_flat) ''seasonFolder'' \<noteq> JBool True \<and>
   map (\<lambda>rq. body (fetch_init rq))
     (sent (snd (invoke refusing (Call_addSeries series_flat)
        (fresh (new Class_SonarrClient \<lparr>url = ''http://h'', apiKey = ''k''\<rparr>))))) =
     [Some ''{"tvdbId":1,"rootFolderPath":"/tv","qualityProfileId":2,"seasonFolder":false,"monitored":true,"addOptions":{"searchForMissingEpisodes":true}}'']\<close>
  by (simp add: series_flat_def addSeries_payload_def define_property_def get_property_def nullish_def
        addSeries_def request_snd fresh_def post_options_def JSON_stringify_def QuoteJSONString_def
        json_escape_char_def Number_toString_def)

text \<open>
  Claim C3, amended. An argument of \<^verbatim>\<open>addSeries\<close> without a \<^verbatim>\<open>monitored\<close>
  field is posted with \<^verbatim>\<open>monitored: true\<close> and the fixed \<^verbatim>\<open>addOptions\<close>, and
  with \<^verbatim>\<open>seasonFolder: true\<close> when it has no \<^verbatim>\<open>seasonFolder\<close> field either; a
  Boolean \<^verbatim>\<open>seasonFolder\<close> of the caller is kept. An argument of \<^verbatim>\<open>addMovie\<close>
  with \<^verbatim>\<open>monitored: false\<close> is posted with \<^verbatim>\<open>monitored: false\<close> and
  \<^verbatim>\<open>addOptions.searchForMovie: true\<close>. In all four \<^verbatim>\<open>add*\<close> methods a missing
  \<^verbatim>\<open>monitored\<close> becomes \<^verbatim>\<open>true\<close> and a Boolean one is kept, and the body of
  the POST request is the JSON text of that object.
\<close>

theorem add_payload_defaults:
  "(map_of series ''monitored'' = None \<longrightarrow>
      get_property (addSeries_payload series) ''monitored'' = JBool True \<and>
      get_property (addSeries_payload series) ''addOptions'' = JObj [(''searchForMissingEpisodes'', JBool True)] \<and>
      (map_of series ''seasonFolder'' = None \<longrightarrow>
         get_property (addSeries_payload series) ''seasonFolder'' = JBool True) \<and>
      (map_of series ''seasonFolder'' = Some (JBool b) \<longrightarrow>
         get_property (addSeries_payload series) ''seasonFolder'' = JBool b)) \<and>
   (map_of movie ''monitored'' = Some (JBool False) \<longrightarrow>
      get_property (addMovie_payload movie) ''monitored'' = JBool False \<and>
      get_property (addMovie_payload movie) ''addOptions'' = JObj [(''searchForMovie'', JBool True)]) \<and>
   (map_of entity ''monitored'' = None \<longrightarrow>
      get_property (addMovie_payload entity) ''monitored'' = JBool True \<and>
      get_property (addArtist_payload entity) ''monitored'' = JBool True \<and>
      get_property (addAuthor_payload entity) ''monitored'' = JBool True) \<and>
   (map_of entity ''monitored'' = Some (JBool m) \<longrightarrow>
      get_property (addSeries_payload entity) ''monitored'' = JBool m \<and>
      get_property (addMovie_payload entity) ''monitored'' = JBool m \<and>
      get_property (addArtist_payload entity) ''monitored'' = JBool m \<and>
      get_property (addAuthor_payload entity) ''monitored'' = JBool m) \<and>
   map (\<lambda>rq. (method' (fetch_init rq), body (fetch_init rq))) (sent (snd (addSeries fetch series w))) =
     map (\<lambda>rq. (method' (fetch_init rq), body (fetch_init rq))) (sent w) @
       [(Some ''POST'', JSON_stringify (JObj (addSeries_payload series)))] \<and>
   map (\<lambda>rq. (method' (fetch_init rq), body (fetch_init rq))) (sent (snd (addMovie fetch movie w))) =
     map (\<lambda>rq. (method' (fetch_init rq), body (fetch_init rq))) (sent w) @
       [(Some ''POST'', JSON_stringify (JObj (addMovie_payload movie)))] \<and>
   map (\<lambda>rq. (method' (fetch_init rq), body (fetch_init rq))) (sent (snd (addArtist fetch entity w))) =
     map (\<lambda>rq. (method' (fetch_init rq), body (fetch_init rq))) (sent w) @
       [(Some ''POST'', JSON_stringify (JObj (addArtist_payload entity)))] \<and>
   map (\<lambda>rq. (method' (fetch_init rq), body (fetch_init rq))) (sent (snd (addAuthor fetch entity w))) =
     map (\<lambda>rq. (method' (fetch_init rq), body (fetch_init rq))) (sent w) @
       [(Some ''POST'', JSON_stringify (JObj (addAuthor_payload entity)))]"
proof (intro conjI impI)
  show "map (\<lambda>rq. (method' (fetch_init rq), body (fetch_init rq))) (sent (snd (addSeries fetch series w))) =
     map (\<lambda>rq. (method' (fetch_init rq), body (fetch_init rq))) (sent w) @
       [(Some ''POST'', JSON_stringify (JObj (addSeries_payload series)))]"
    by (simp add: addSeries_def request_bodies post_options_def)
  show "map (\<lambda>rq. (method' (fetch_init rq), body (fetch_init rq))) (sent (snd (addMovie fetch movie w))) =
     map (\<lambda>rq. (method' (fetch_init rq), body (fetch_init rq))) (sent w) @
       [(Some ''POST'', JSON_stringify (JObj (addMovie_payload movie)))]"
    by (simp add: addMovie_def request_bodies post_options_def)
  show "map (\<lambda>rq. (method' (fetch_init rq), body (fetch_init rq))) (sent (snd (addArtist fetch entity w))) =
     map (\<lambda>rq. (method' (fetch_init rq), body (fetch_init rq))) (sent w) @
       [(Some ''POST'', JSON_stringify (JObj (addArtist_payload entity)))]"
    by (simp add: addArtist_def request_bodies post_options_def)
  show "map (\<lambda>rq. (method' (fetch_init rq), body (fetch_init rq))) (sent (snd (addAuthor fetch entity w))) =
     map (\<lambda>rq. (method' (fetch_init rq), body (fetch_init rq))) (sent w) @
       [(Some ''POST'', JSON_stringify (JObj (addAuthor_payload entity)))]"
    by (simp add: addAuthor_def request_bodies post_options_def)
qed (simp_all only: addSeries_payload_monitored addSeries_payload_seasonFolder
       addSeries_payload_addOptions addMovie_payload_monitored addMovie_payload_addOptions
       addArtist_payload_monitored addAuthor_payload_monitored nullish_missing nullish_bool)


text \<open>
  The argument \<^verbatim>\<open>{ tvdbId: 1, rootFolderPath: "/tv", qualityProfileId: 2 }\<close> of
  \<^verbatim>\<open>addSeries\<close>, and a movie with \<^verbatim>\<open>monitored: false\<close>.
\<close>

theorem add_payload_defaults_witness:
  \<open>map_of series_minimal ''monitored'' = None \<and>
   map_of series_minimal ''seasonFolder'' = None \<and>
   get_property (addSeries_payload series_minimal) ''monitored'' = JBool True \<and>
   get_property (addSeries_payload series_minimal) ''seasonFolder'' = JBool True \<and>
   get_property (addSeries_payload series_minimal) ''addOptions'' =
     JObj [(''searchForMissingEpisodes'', JBool True)] \<and>
   map_of movie_unmonitored ''monitored'' = Some (JBool False) \<and>
   get_property (addMovie_payload movie_unmonitored) ''monitored'' = JBool False \<and>
   map (\<lambda>rq. (method' (fetch_init rq), body (fetch_init rq)))
     (sent (snd (addSeries refusing series_minimal
        (fresh (new Class_SonarrClient \<lparr>url = ''http://h'', apiKey = ''k''\<rparr>))))) =
     [(Some ''POST'', Some ''{"tvdbId":1,"rootFolderPath":"/tv","qualityProfileId":2,"monitored":true,"seasonFolder":true,"addOptions":{"searchForMissingEpisodes":true}}'')] \<and>
   map (\<lambda>rq. (method' (fetch_init rq), body (fetch_init rq)))
     (sent (snd (addMovie refusing movie_unmonitored
        (fresh (new Class_SonarrClient \<lparr>url = ''http://h'', apiKey = ''k''\<rparr>))))) =
     [(Some ''POST'', Some ''{"tmdbId":1,"rootFolderPath":"/movies","qualityProfileId":2,"monitored":false,"addOptions":{"searchForMovie":true}}'')]\<close>
proof -
  have m: "map_of series_minimal ''monitored'' = None" by (simp add: series_minimal_def)
  have f: "map_of series_minimal ''seasonFolder'' = None" by (simp add: series_minimal_def)
  have u: "map_of movie_unmonitored ''monitored'' = Some (JBool False)"
    by (simp add: movie_unmonitored_def)
  have s: "sent (fresh (new Class_SonarrClient \<lparr>url = ''http://h'', apiKey = ''k''\<rparr>)) = []"
    by (simp add: fresh_def)
  have js: \<open>JSON_stringify (JObj (addSeries_payload series_minimal)) =
    Some ''{"tvdbId":1,"rootFolderPath":"/tv","qualityProfileId":2,"monitored":true,"seasonFolder":true,"addOptions":{"searchForMissingEpisodes":true}}''\<close>
    by (simp add: series_minimal_def addSeries_payload_def define_property_def get_property_def
          nullish_def JSON_stringify_def QuoteJSONString_def json_escape_char_def Number_toString_def)
  have jm: \<open>JSON_stringify (JObj (addMovie_payload movie_unmonitored)) =
    Some ''{"tmdbId":1,"rootFolderPath":"/movies","qualityProfileId":2,"monitored":false,"addOptions":{"searchForMovie":true}}''\<close>
    by (simp add: movie_unmonitored_def addMovie_payload_def define_property_def get_property_def
          nullish_def JSON_stringify_def QuoteJSONString_def json_escape_char_def Number_toString_def)
  note t = add_payload_defaults [of series_minimal False movie_unmonitored movie_unmonitored False
      refusing "fresh (new Class_SonarrClient \<lparr>url = ''http://h'', apiKey = ''k''\<rparr>)"]
  from t m f u show ?thesis
    by (simp only: s js jm list.map append_Nil simp_thms)
qed

text \<open>
  Claim C4. In the object that each \<^verbatim>\<open>add*\<close> method posts, \<^verbatim>\<open>addOptions\<close> is
  exactly the fixed block of that method, whatever the caller supplied; when the
  caller's object has no duplicate keys it is the only \<^verbatim>\<open>addOptions\<close> property of the
  posted object; and the body of the request is the JSON text of that object.
\<close>

theorem addOptions_cannot_be_overridden:
  "get_property (addSeries_payload p) ''addOptions'' = JObj [(''searchForMissingEpisodes'', JBool True)] \<and>
   get_property (addMovie_payload p) ''addOptions'' = JObj [(''searchForMovie'', JBool True)] \<and>
   get_property (addArtist_payload p) ''addOptions'' = JObj [(''searchForMissingAlbums'', JBool True)] \<and>
   get_property (addAuthor_payload p) ''addOptions'' = JObj [(''searchForMissingBooks'', JBool True)] \<and>
   (distinct (map fst p) \<longrightarrow>
      filter (\<lambda>kv. fst kv = ''addOptions'') (addSeries_payload p) =
        [(''addOptions'', JObj [(''searchForMissingEpisodes'', JBool True)])] \<and>
      filter (\<lambda>kv. fst kv = ''addOptions'') (addMovie_payload p) =
        [(''addOptions'', JObj [(''searchForMovie'', JBool True)])] \<and>
      filter (\<lambda>kv. fst kv = ''addOptions'') (addArtist_payload p) =
        [(''addOptions'', JObj [(''searchForMissingAlbums'', JBool True)])] \<and>
      filter (\<lambda>kv. fst kv = ''addOptions'') (addAuthor_payload p) =
        [(''addOptions'', JObj [(''searchForMissingBooks'', JBool True)])]) \<and>
   map (\<lambda>rq. body (fetch_init rq)) (sent (snd (invoke fetch (Call_addSeries p) w))) =
     map (\<lambda>rq. body (fetch_init rq)) (sent w) @ [JSON_stringify (JObj (addSeries_payload p))] \<and>
   map (\<lambda>rq. body (fetch_init rq)) (sent (snd (invoke fetch (Call_addMovie p) w))) =
     map (\<lambda>rq. body (fetch_init rq)) (sent w) @ [JSON_stringify (JObj (addMovie_payload p))] \<and>
   map (\<lambda>rq. body (fetch_init rq)) (sent (snd (invoke fetch (Call_addArtist p) w))) =
     map (\<lambda>rq. body (fetch_init rq)) (sent w) @ [JSON_stringify (JObj (addArtist_payload p))] \<and>
   map (\<lambda>rq. body (fetch_init rq)) (sent (snd (invoke fetch (Call_addAuthor p) w))) =
     map (\<lambda>rq. body (fetch_init rq)) (sent w) @ [JSON_stringify (JObj (addAuthor_payload p))]"
proof (intro conjI impI)
  assume d: "distinct (map fst p)"
  then have d1: "distinct (map fst (define_property ''monitored''
                    (nullish (get_property p ''monitored'') (JBool True)) p))"
    by (rule distinct_define)
  then have d2: "distinct (map fst (define_property ''seasonFolder''
                    (nullish (get_property p ''seasonFolder'') (JBool True))
                    (define_property ''monitored'' (nullish (get_property p ''monitored'') (JBool True)) p)))"
    by (rule distinct_define)
  from d2 show "filter (\<lambda>kv. fst kv = ''addOptions'') (addSeries_payload p) =
        [(''addOptions'', JObj [(''searchForMissingEpisodes'', JBool True)])]"
    unfolding addSeries_payload_def by (rule filter_define_distinct)
  from d1 show "filter (\<lambda>kv. fst kv = ''addOptions'') (addMovie_payload p) =
        [(''addOptions'', JObj [(''searchForMovie'', JBool True)])]"
    unfolding addMovie_payload_def by (rule filter_define_distinct)
  from d1 show "filter (\<lambda>kv. fst kv = ''addOptions'') (addArtist_payload p) =
        [(''addOptions'', JObj [(''searchForMissingAlbums'', JBool True)])]"
    unfolding addArtist_payload_def by (rule filter_define_distinct)
  from d1 show "filter (\<lambda>kv. fst kv = ''addOptions'') (addAuthor_payload p) =
        [(''addOptions'', JObj [(''searchForMissingBooks'', JBool True)])]"
    unfolding addAuthor_payload_def by (rule filter_define_distinct)
qed (simp_all add: addSeries_payload_addOptions addMovie_payload_addOptions
       addArtist_payload_addOptions addAuthor_payload_addOptions
       addSeries_def addMovie_def addArtist_def addAuthor_def request_snd post_options_def)

text \<open>A caller who supplies \<^verbatim>\<open>addOptions: { searchForMissingEpisodes: false }\<close>.\<close>

theorem addOptions_cannot_be_overridden_witness:
  \<open>get_property series_no_search ''addOptions'' = JObj [(''searchForMissingEpisodes'', JBool False)] \<and>
   distinct (map fst series_no_search) \<and>
   get_property (addSeries_payload series_no_search) ''addOptions'' =
     JObj [(''searchForMissingEpisodes'', JBool True)] \<and>
   filter (\<lambda>kv. fst kv = ''addOptions'') (addSeries_payload series_no_search) =
     [(''addOptions'', JObj [(''searchForMissingEpisodes'', JBool True)])] \<and>
   map (\<lambda>rq. body (fetch_init rq))
     (sent (snd (invoke refusing (Call_addSeries series_no_search)
        (fresh (new Class_SonarrClient \<lparr>url = ''http://h'', apiKey = ''k''\<rparr>))))) =
     [Some ''{"tvdbId":1,"addOptions":{"searchForMissingEpisodes":true},"monitored":true,"seasonFolder":true}'']\<close>
proof -
  have g: "get_property series_no_search ''addOptions'' = JObj [(''searchForMissingEpisodes'', JBool False)]"
    by (simp add: series_no_search_def get_property_def)
  have d: "distinct (map fst series_no_search)" by (simp add: series_no_search_def)
  have s: "sent (fresh (new Class_SonarrClient \<lparr>url = ''http://h'', apiKey = ''k''\<rparr>)) = []"
    by (simp add: fresh_def)
  have js: \<open>JSON_stringify (JObj (addSeries_payload series_no_search)) =
    Some ''{"tvdbId":1,"addOptions":{"searchForMissingEpisodes":true},"monitored":true,"seasonFolder":true}''\<close>
    by (simp add: series_no_search_def addSeries_payload_def define_property_def get_property_def
          nullish_def JSON_stringify_def QuoteJSONString_def json_escape_char_def Number_toString_def)
  note t = addOptions_cannot_be_overridden [of series_no_search refusing
      "fresh (new Class_SonarrClient \<lparr>url = ''http://h'', apiKey = ''k''\<rparr>)"]
  from t g d show ?thesis
    by (simp only: s js list.map append_Nil simp_thms)
qed

subsection \<open>Failures\<close>

lemma request_sent:
  "\<exists>rq. sent (snd (request fetch e opts w)) = sent w @ [rq] \<and>
        fst (request fetch e opts w) =
          (case fetch (sent w) rq of
             Rejects x \<Rightarrow> Inl (FetchRejected x)
           | Resolves r \<Rightarrow>
               if \<not> ok r
               then Inl (ApiError (service_string (serviceName (this w)) @ '' API error: ''
                              @ nat_toString (status r) @ '' '' @ statusText r
                              @ '' - '' @ text_body r))
               else (case json_body r of None \<Rightarrow> Inl JsonRejected | Some v \<Rightarrow> Inr v))"
  by (simp add: request_snd request_fst)

lemma invoke_outcome:
  assumes "call \<noteq> Call_testConnection"
  shows "\<exists>rq. sent (snd (invoke fetch call w)) = sent w @ [rq] \<and>
        fst (invoke fetch call w) =
          (case fetch (sent w) rq of
             Rejects x \<Rightarrow> Inl (FetchRejected x)
           | Resolves r \<Rightarrow>
               if \<not> ok r
               then Inl (ApiError (service_string (serviceName (this w)) @ '' API error: ''
                              @ nat_toString (status r) @ '' '' @ statusText r
                              @ '' - '' @ text_body r))
               else (case json_body r of None \<Rightarrow> Inl JsonRejected | Some v \<Rightarrow> Inr v))"
proof -
  from invoke_is_request [OF assms] obtain opts
    where "\<forall>(fetch :: 'a transport) w. invoke fetch call w = request fetch (endpoint_of call) opts w" ..
  then have "invoke fetch call w = request fetch (endpoint_of call) opts w" by simp
  with request_sent [of fetch "endpoint_of call" opts w] show ?thesis by simp
qed

text \<open>
  Claim C5, as stated for every method, fails at \<^verbatim>\<open>testConnection\<close>: on a response
  with status 500 and body \<^verbatim>\<open>boom\<close>, \<^verbatim>\<open>getStatus\<close> fails with the service API
  error and \<^verbatim>\<open>testConnection\<close> returns \<^verbatim>\<open>false\<close>.
\<close>

theorem testConnection_does_not_fail:
  "fst (invoke (answering boom) Call_getStatus
         (fresh (new Class_SonarrClient \<lparr>url = ''http://h'', apiKey = ''k''\<rparr>))) =
     Inl (ApiError ''sonarr API error: 500 Internal Server Error - boom'') \<and>
   fst (invoke (answering boom) Call_testConnection
         (fresh (new Class_SonarrClient \<lparr>url = ''http://h'', apiKey = ''k''\<rparr>))) =
     Inr (JBool False) \<and>
   fst (invoke (answering boom) Call_testConnection
         (fresh (new Class_SonarrClient \<lparr>url = ''http://h'', apiKey = ''k''\<rparr>))) \<noteq>
     Inl (ApiError ''sonarr API error: 500 Internal Server Error - boom'')"
  by (simp add: testConnection_def getStatus_def request_def Let_def answering_def boom_def
        fresh_def class_defs)

text \<open>
  Claim C5, amended. Every method call other than \<^verbatim>\<open>testConnection\<close> hands exactly
  one request to the transport. When the transport answers it with a response that is
  not \<open>ok\<close>, the call fails with the error whose message is the service name,
  \<^verbatim>\<open>API error:\<close>, the status, the status text, \<^verbatim>\<open>-\<close> and the body text; when
  the transport rejects, the call fails with that rejection itself. In both cases no
  second request is made.
\<close>

theorem failures_propagate:
  assumes "call \<noteq> Call_testConnection"
  shows "\<exists>rq. sent (snd (invoke fetch call w)) = sent w @ [rq] \<and>
          (\<forall>r. fetch (sent w) rq = Resolves r \<and> \<not> ok r \<longrightarrow>
             fst (invoke fetch call w) =
               Inl (ApiError (service_string (serviceName (this w)) @ '' API error: ''
                              @ nat_toString (status r) @ '' '' @ statusText r
                              @ '' - '' @ text_body r))) \<and>
          (\<forall>e. fetch (sent w) rq = Rejects e \<longrightarrow>
             fst (invoke fetch call w) = Inl (FetchRejected e))"
proof -
  from invoke_outcome [OF assms, of fetch w] obtain rq
    where s: "sent (snd (invoke fetch call w)) = sent w @ [rq]"
      and r: "fst (invoke fetch call w) =
          (case fetch (sent w) rq of
             Rejects x \<Rightarrow> Inl (FetchRejected x)
           | Resolves r \<Rightarrow>
               if \<not> ok r
               then Inl (ApiError (service_string (serviceName (this w)) @ '' API error: ''
                              @ nat_toString (status r) @ '' '' @ statusText r
                              @ '' - '' @ text_body r))
               else (case json_body r of None \<Rightarrow> Inl JsonRejected | Some v \<Rightarrow> Inr v))"
    by (elim exE conjE)
  have "\<forall>r'. fetch (sent w) rq = Resolves r' \<and> \<not> ok r' \<longrightarrow>
             fst (invoke fetch call w) =
               Inl (ApiError (service_string (serviceName (this w)) @ '' API error: ''
                              @ nat_toString (status r') @ '' '' @ statusText r'
                              @ '' - '' @ text_body r'))"
    by (simp add: r)
  moreover have "\<forall>e. fetch (sent w) rq = Rejects e \<longrightarrow>
             fst (invoke fetch call w) = Inl (FetchRejected e)"
    by (simp add: r)
  ultimately show ?thesis using s by (intro exI [of _ rq] conjI)
qed

text \<open>\<^verbatim>\<open>getSeries\<close> on a Sonarr client, answered with status 500 and refused.\<close>

theorem failures_propagate_witness:
  "Call_getSeries \<noteq> Call_testConnection \<and>
   \<not> ok boom \<and>
   fst (invoke (answering boom) Call_getSeries
         (fresh (new Class_SonarrClient \<lparr>url = ''http://h'', apiKey = ''k''\<rparr>))) =
     Inl (ApiError ''sonarr API error: 500 Internal Server Error - boom'') \<and>
   length (sent (snd (invoke (answering boom) Call_getSeries
         (fresh (new Class_SonarrClient \<lparr>url = ''http://h'', apiKey = ''k''\<rparr>))))) = 1 \<and>
   fst (invoke refusing Call_getSeries
         (fresh (new Class_SonarrClient \<lparr>url = ''http://h'', apiKey = ''k''\<rparr>))) =
     Inl (FetchRejected ''ECONNREFUSED'') \<and>
   length (sent (snd (invoke refusing Call_getSeries
         (fresh (new Class_SonarrClient \<lparr>url = ''http://h'', apiKey = ''k''\<rparr>))))) = 1"
proof -
  define w where "w = fresh (new Class_SonarrClient \<lparr>url = ''http://h'', apiKey = ''k''\<rparr>)"
  have c: "Call_getSeries \<noteq> Call_testConnection" by simp
  have s: "sent w = []" by (simp add: w_def fresh_def)
  have n: "serviceName (this w) = sonarr" by (simp add: w_def fresh_def class_defs)
  have a: "answering boom [] = (\<lambda>rq. Resolves boom)" by (rule ext) (simp add: answering_def)
  have b: "refusing [] = (\<lambda>rq. Rejects ''ECONNREFUSED'')" by (rule ext) (simp add: refusing_def)
  have k: "\<not> ok boom" by (simp add: boom_def)
  have m: "service_string sonarr @ '' API error: '' @ nat_toString (status boom) @ '' ''
             @ statusText boom @ '' - '' @ text_body boom
           = ''sonarr API error: 500 Internal Server Error - boom''"
    by (simp add: boom_def)
  from failures_propagate [OF c, of "answering boom" w] obtain rq
    where "sent (snd (invoke (answering boom) Call_getSeries w)) = sent w @ [rq] \<and>
          (\<forall>r. answering boom (sent w) rq = Resolves r \<and> \<not> ok r \<longrightarrow>
             fst (invoke (answering boom) Call_getSeries w) =
               Inl (ApiError (service_string (serviceName (this w)) @ '' API error: ''
                              @ nat_toString (status r) @ '' '' @ statusText r
                              @ '' - '' @ text_body r))) \<and>
          (\<forall>e. answering boom (sent w) rq = Rejects e \<longrightarrow>
             fst (invoke (answering boom) Call_getSeries w) = Inl (FetchRejected e))" ..
  then have p1: "length (sent (snd (invoke (answering boom) Call_getSeries w))) = 1"
    and p2: "fst (invoke (answering boom) Call_getSeries w) =
               Inl (ApiError ''sonarr API error: 500 Internal Server Error - boom'')"
    using k m by (simp_all add: s n a)
  from failures_propagate [OF c, of refusing w] obtain rq'
    where "sent (snd (invoke refusing Call_getSeries w)) = sent w @ [rq'] \<and>
          (\<forall>r. refusing (sent w) rq' = Resolves r \<and> \<not> ok r \<longrightarrow>
             fst (invoke refusing Call_getSeries w) =
               Inl (ApiError (service_string (serviceName (this w)) @ '' API error: ''
                              @ nat_toString (status r) @ '' '' @ statusText r
                              @ '' - '' @ text_body r))) \<and>
          (\<forall>e. refusing (sent w) rq' = Rejects e \<longrightarrow>
             fst (invoke refusing Call_getSeries w) = Inl (FetchRejected e))" ..
  then have q1: "length (sent (snd (invoke refusing Call_getSeries w))) = 1"
    and q2: "fst (invoke refusing Call_getSeries w) = Inl (FetchRejected ''ECONNREFUSED'')"
    by (simp_all add: s b)
  from c k p2 p1 q2 q1 show ?thesis unfolding w_def by (intro conjI)
qed

lemma testConnection_fst:
  "fst (testConnection fetch w) =
     (case fst (getStatus fetch w) of Inr v \<Rightarrow> Inr (JBool True) | Inl e \<Rightarrow> Inr (JBool False))"
  by (simp add: testConnection_def split: prod.split sum.split)

text \<open>
  Claim C6. \<^verbatim>\<open>testConnection\<close> always returns a Boolean: \<^verbatim>\<open>true\<close> when
  \<^verbatim>\<open>getStatus\<close> returns, \<^verbatim>\<open>false\<close> when \<^verbatim>\<open>getStatus\<close> fails in any way,
  and it does nothing beyond what \<^verbatim>\<open>getStatus\<close> does. Every other method call
  fails whenever the transport rejects its request, answers it with a response that is
  not \<open>ok\<close>, or answers it with a body that is not JSON.
\<close>

theorem testConnection_never_throws:
  "(\<exists>b. fst (testConnection fetch w) = Inr (JBool b)) \<and>
   ((\<exists>v. fst (getStatus fetch w) = Inr v) \<longrightarrow> fst (testConnection fetch w) = Inr (JBool True)) \<and>
   ((\<exists>f. fst (getStatus fetch w) = Inl f) \<longrightarrow> fst (testConnection fetch w) = Inr (JBool False)) \<and>
   snd (testConnection fetch w) = snd (getStatus fetch w) \<and>
   (call \<noteq> Call_testConnection \<longrightarrow>
      (\<exists>rq. sent (snd (invoke fetch call w)) = sent w @ [rq] \<and>
         ((\<exists>e. fetch (sent w) rq = Rejects e) \<or>
          (\<exists>r. fetch (sent w) rq = Resolves r \<and> (\<not> ok r \<or> json_body r = None))
          \<longrightarrow> (\<exists>f. fst (invoke fetch call w) = Inl f))))"
proof (intro conjI impI)
  show "\<exists>b. fst (testConnection fetch w) = Inr (JBool b)"
    by (cases "fst (getStatus fetch w)") (auto simp add: testConnection_fst)
next
  assume "\<exists>v. fst (getStatus fetch w) = Inr v"
  then show "fst (testConnection fetch w) = Inr (JBool True)"
    by (auto simp add: testConnection_fst)
next
  assume "\<exists>f. fst (getStatus fetch w) = Inl f"
  then show "fst (testConnection fetch w) = Inr (JBool False)"
    by (auto simp add: testConnection_fst)
next
  show "snd (testConnection fetch w) = snd (getStatus fetch w)"
    by (rule testConnection_snd)
next
  assume "call \<noteq> Call_testConnection"
  from invoke_outcome [OF this, of fetch w] obtain rq
    where s: "sent (snd (invoke fetch call w)) = sent w @ [rq]"
      and r: "fst (invoke fetch call w) =
          (case fetch (sent w) rq of
             Rejects x \<Rightarrow> Inl (FetchRejected x)
           | Resolves r \<Rightarrow>
               if \<not> ok r
               then Inl (ApiError (service_string (serviceName (this w)) @ '' API error: ''
                              @ nat_toString (status r) @ '' '' @ statusText r
                              @ '' - '' @ text_body r))
               else (case json_body r of None \<Rightarrow> Inl JsonRejected | Some v \<Rightarrow> Inr v))"
    by (elim exE conjE)
  have "(\<exists>e. fetch (sent w) rq = Rejects e) \<or>
          (\<exists>r. fetch (sent w) rq = Resolves r \<and> (\<not> ok r \<or> json_body r = None))
          \<longrightarrow> (\<exists>f. fst (invoke fetch call w) = Inl f)"
    by (auto simp add: r)
  with s show "\<exists>rq. sent (snd (invoke fetch call w)) = sent w @ [rq] \<and>
         ((\<exists>e. fetch (sent w) rq = Rejects e) \<or>
          (\<exists>r. fetch (sent w) rq = Resolves r \<and> (\<not> ok r \<or> json_body r = None))
          \<longrightarrow> (\<exists>f. fst (invoke fetch call w) = Inl f))"
    by (intro exI [of _ rq] conjI)
qed

text \<open>
  A Prowlarr client whose transport answers with status 500, refuses the connection, or
  answers with the system status; and \<^verbatim>\<open>getIndexers\<close> answered with status 500.
\<close>

theorem testConnection_never_throws_witness:
  "fst (getStatus (answering boom) (fresh (new Class_ProwlarrClient \<lparr>url = ''http://h'', apiKey = ''k''\<rparr>))) =
     Inl (ApiError ''prowlarr API error: 500 Internal Server Error - boom'') \<and>
   fst (testConnection (answering boom) (fresh (new Class_ProwlarrClient \<lparr>url = ''http://h'', apiKey = ''k''\<rparr>))) =
     Inr (JBool False) \<and>
   fst (getStatus refusing (fresh (new Class_ProwlarrClient \<lparr>url = ''http://h'', apiKey = ''k''\<rparr>))) =
     Inl (FetchRejected ''ECONNREFUSED'') \<and>
   fst (testConnection refusing (fresh (new Class_ProwlarrClient \<lparr>url = ''http://h'', apiKey = ''k''\<rparr>))) =
     Inr (JBool False) \<and>
   fst (getStatus (answering (accepted (JObj [(''appName'', JStr ''Prowlarr'')])))
          (fresh (new Class_ProwlarrClient \<lparr>url = ''http://h'', apiKey = ''k''\<rparr>))) =
     Inr (JObj [(''appName'', JStr ''Prowlarr'')]) \<and>
   fst (testConnection (answering (accepted (JObj [(''appName'', JStr ''Prowlarr'')])))
          (fresh (new Class_ProwlarrClient \<lparr>url = ''http://h'', apiKey = ''k''\<rparr>))) =
     Inr (JBool True) \<and>
   Call_getIndexers \<noteq> Call_testConnection \<and>
   (\<exists>f. fst (invoke (answering boom) Call_getIndexers
           (fresh (new Class_ProwlarrClient \<lparr>url = ''http://h'', apiKey = ''k''\<rparr>))) = Inl f)"
proof -
  define w where "w = fresh (new Class_ProwlarrClient \<lparr>url = ''http://h'', apiKey = ''k''\<rparr>)"
  define up where "up = answering (accepted (JObj [(''appName'', JStr ''Prowlarr'')]))"
  have g1: "fst (getStatus (answering boom) w) =
      Inl (ApiError ''prowlarr API error: 500 Internal Server Error - boom'')"
    by (simp add: w_def getStatus_def request_fst answering_def boom_def fresh_def class_defs)
  have g2: "fst (getStatus refusing w) = Inl (FetchRejected ''ECONNREFUSED'')"
    by (simp add: w_def getStatus_def request_fst refusing_def)
  have g3: "fst (getStatus up w) = Inr (JObj [(''appName'', JStr ''Prowlarr'')])"
    by (simp add: w_def up_def getStatus_def request_fst answering_def accepted_def)
  have c: "Call_getIndexers \<noteq> Call_testConnection" by simp
  note t1 = testConnection_never_throws [of "answering boom" w Call_getIndexers]
  note t2 = testConnection_never_throws [of refusing w Call_getIndexers]
  note t3 = testConnection_never_throws [of up w Call_getIndexers]
  from g1 have "\<exists>f. fst (getStatus (answering boom) w) = Inl f" by (rule exI)
  with t1 [THEN conjunct2, THEN conjunct2, THEN conjunct1]
  have r1: "fst (testConnection (answering boom) w) = Inr (JBool False)" by (rule mp)
  from g2 have "\<exists>f. fst (getStatus refusing w) = Inl f" by (rule exI)
  with t2 [THEN conjunct2, THEN conjunct2, THEN conjunct1]
  have r2: "fst (testConnection refusing w) = Inr (JBool False)" by (rule mp)
  from g3 have "\<exists>v. fst (getStatus up w) = Inr v" by (rule exI)
  with t3 [THEN conjunct2, THEN conjunct1]
  have r3: "fst (testConnection up w) = Inr (JBool True)" by (rule mp)
  from t1 [THEN conjunct2, THEN conjunct2, THEN conjunct2, THEN conjunct2, THEN mp, OF c]
  obtain rq
    where e: "sent (snd (invoke (answering boom) Call_getIndexers w)) = sent w @ [rq] \<and>
         ((\<exists>e. answering boom (sent w) rq = Rejects e) \<or>
          (\<exists>r. answering boom (sent w) rq = Resolves r \<and> (\<not> ok r \<or> json_body r = None))
          \<longrightarrow> (\<exists>f. fst (invoke (answering boom) Call_getIndexers w) = Inl f))" ..
  have "answering boom (sent w) rq = Resolves boom \<and> (\<not> ok boom \<or> json_body boom = None)"
    by (simp add: answering_def boom_def)
  then have "\<exists>r. answering boom (sent w) rq = Resolves r \<and> (\<not> ok r \<or> json_body r = None)"
    by (rule exI)
  then have "(\<exists>e. answering boom (sent w) rq = Rejects e) \<or>
          (\<exists>r. answering boom (sent w) rq = Resolves r \<and> (\<not> ok r \<or> json_body r = None))"
    by (rule disjI2)
  with e [THEN conjunct2]
  have r4: "\<exists>f. fst (invoke (answering boom) Call_getIndexers w) = Inl f" by (rule mp)
  from g1 r1 g2 r2 g3 r3 c r4 show ?thesis unfolding w_def up_def by (intro conjI)
qed

subsection \<open>The calendar query\<close>

lemma urlencoded_start: "urlencoded_string ''start'' = ''start''"
  by (simp add: urlencoded_string_def urlencoded_byte_def ascii_alphanumeric_def)

lemma urlencoded_end: "urlencoded_string ''end'' = ''end''"
  by (simp add: urlencoded_string_def urlencoded_byte_def ascii_alphanumeric_def)

lemma calendar_endpoint:
  "mk \<in> {Call_getCalendar, Call_LidarrClient_getCalendar, Call_ReadarrClient_getCalendar} \<Longrightarrow>
   endpoint_of (mk start end') =
     ''/calendar'' @
       (let params = append_if_truthy ''end'' end' (append_if_truthy ''start'' start [])
        in if URLSearchParams_toString params \<noteq> [] then ''?'' @ URLSearchParams_toString params else [])"
  by (auto simp add: Let_def)

lemma hex_digits_safe: "list_all ascii_alphanumeric (map hex_digit [0..<16])"
  by code_simp

lemma hex_digit_safe: "n < 16 \<Longrightarrow> ascii_alphanumeric (hex_digit n)"
proof -
  assume "n < 16"
  then have "n \<in> set [0..<16]" by simp
  with hex_digits_safe show ?thesis
    unfolding list_all_iff by (simp del: upt_Suc set_upt)
qed

lemma urlencoded_byte_safe:
  "x \<in> set (urlencoded_byte c) \<Longrightarrow> ascii_alphanumeric x \<or> x \<in> set ''*-._+%''"
proof -
  have "(of_char c :: nat) < 256" by simp
  then have "(of_char c :: nat) div 16 < 16" by arith
  moreover have "(of_char c :: nat) mod 16 < 16" by simp
  ultimately have "ascii_alphanumeric (hex_digit ((of_char c :: nat) div 16))"
    and "ascii_alphanumeric (hex_digit ((of_char c :: nat) mod 16))"
    by (simp_all only: hex_digit_safe)
  then show "x \<in> set (urlencoded_byte c) \<Longrightarrow> ascii_alphanumeric x \<or> x \<in> set ''*-._+%''"
    by (auto simp add: urlencoded_byte_def percent_encode_byte_def split: if_splits)
qed

lemma urlencoded_string_safe:
  "x \<in> set (urlencoded_string s) \<Longrightarrow> ascii_alphanumeric x \<or> x \<in> set ''*-._+%''"
  unfolding urlencoded_string_def using urlencoded_byte_safe by auto


lemma toString_single:
  "URLSearchParams_toString [(n, v)] = urlencoded_string n @ ''='' @ urlencoded_string v"
  by (simp add: URLSearchParams_toString_def)

lemma toString_pair:
  "URLSearchParams_toString [(n, v), (n', v')] =
     urlencoded_string n @ ''='' @ urlencoded_string v @ ''&'' @ urlencoded_string n' @ ''='' @ urlencoded_string v'"
  by (simp add: URLSearchParams_toString_def)

lemma toString_empty: "URLSearchParams_toString [] = []"
  by (simp add: URLSearchParams_toString_def)

text \<open>
  Claim C7, as stated for every pair of arguments, fails when \<^verbatim>\<open>start\<close> is given as
  the empty string: the request URL then carries no query string.
\<close>

theorem getCalendar_empty_start_has_no_query:
  "map fetch_url (sent (snd (invoke refusing (Call_getCalendar (Some '''') None)
       (fresh (new Class_SonarrClient \<lparr>url = ''http://h'', apiKey = ''k''\<rparr>))))) =
     [''http://h/api/v3/calendar''] \<and>
   map fetch_url (sent (snd (invoke refusing (Call_getCalendar (Some '''') None)
       (fresh (new Class_SonarrClient \<lparr>url = ''http://h'', apiKey = ''k''\<rparr>))))) \<noteq>
     [''http://h/api/v3/calendar?start='']"
  by (simp add: getCalendar_def request_snd fresh_def class_defs replace_trailing_slash_def
        append_if_truthy_def toString_empty Let_def no_options_def)

text \<open>
  Claim C7, amended. For \<^verbatim>\<open>getCalendar\<close> of the base class and for the overrides
  of \<^verbatim>\<open>LidarrClient\<close> and \<^verbatim>\<open>ReadarrClient\<close>: without arguments the URL ends in
  \<^verbatim>\<open>/calendar\<close> and has no query string; with a non-empty \<^verbatim>\<open>start\<close> only, the
  query string is \<^verbatim>\<open>?start=\<close> and the encoded value; with both non-empty, it is
  \<^verbatim>\<open>?start=\<close>, the encoded start, \<^verbatim>\<open>&end=\<close> and the encoded end. An empty
  string is treated as an argument that is not given. The encoded values consist of
  ASCII letters, digits and \<^verbatim>\<open>* - . _ + %\<close> only.
\<close>

theorem calendar_query_string:
  assumes "mk \<in> {Call_getCalendar, Call_LidarrClient_getCalendar, Call_ReadarrClient_getCalendar}"
  shows "map fetch_url (sent (snd (invoke fetch (mk None None) w))) =
           map fetch_url (sent w) @
             [url (config (this w)) @ ''/api/'' @ apiVersion (this w) @ ''/calendar''] \<and>
         (s \<noteq> [] \<longrightarrow>
            map fetch_url (sent (snd (invoke fetch (mk (Some s) None) w))) =
              map fetch_url (sent w) @
                [url (config (this w)) @ ''/api/'' @ apiVersion (this w) @ ''/calendar?start=''
                   @ urlencoded_string s]) \<and>
         (s \<noteq> [] \<and> e \<noteq> [] \<longrightarrow>
            map fetch_url (sent (snd (invoke fetch (mk (Some s) (Some e)) w))) =
              map fetch_url (sent w) @
                [url (config (this w)) @ ''/api/'' @ apiVersion (this w) @ ''/calendar?start=''
                   @ urlencoded_string s @ ''&end='' @ urlencoded_string e]) \<and>
         invoke fetch (mk (Some []) end') w = invoke fetch (mk None end') w \<and>
         invoke fetch (mk start (Some [])) w = invoke fetch (mk start None) w \<and>
         (\<forall>c \<in> set (urlencoded_string s) \<union> set (urlencoded_string e).
            ascii_alphanumeric c \<or> c \<in> set ''*-._+%'')"
proof (intro conjI impI ballI)
  show "map fetch_url (sent (snd (invoke fetch (mk None None) w))) =
           map fetch_url (sent w) @
             [url (config (this w)) @ ''/api/'' @ apiVersion (this w) @ ''/calendar'']"
    by (simp only: invoke_urls calendar_endpoint [OF assms])
       (simp add: append_if_truthy_def toString_empty)
next
  assume "s \<noteq> []"
  then show "map fetch_url (sent (snd (invoke fetch (mk (Some s) None) w))) =
              map fetch_url (sent w) @
                [url (config (this w)) @ ''/api/'' @ apiVersion (this w) @ ''/calendar?start=''
                   @ urlencoded_string s]"
    by (simp only: invoke_urls calendar_endpoint [OF assms])
       (simp add: append_if_truthy_def append_param_def toString_single urlencoded_start)
next
  assume "s \<noteq> [] \<and> e \<noteq> []"
  then show "map fetch_url (sent (snd (invoke fetch (mk (Some s) (Some e)) w))) =
              map fetch_url (sent w) @
                [url (config (this w)) @ ''/api/'' @ apiVersion (this w) @ ''/calendar?start=''
                   @ urlencoded_string s @ ''&end='' @ urlencoded_string e]"
    by (simp only: invoke_urls calendar_endpoint [OF assms])
       (simp add: append_if_truthy_def append_param_def toString_pair urlencoded_start urlencoded_end)
next
  from assms show "invoke fetch (mk (Some []) end') w = invoke fetch (mk None end') w"
    by (auto simp add: getCalendar_def LidarrClient_getCalendar_def ReadarrClient_getCalendar_def
          append_if_truthy_def)
next
  from assms show "invoke fetch (mk start (Some [])) w = invoke fetch (mk start None) w"
    by (auto simp add: getCalendar_def LidarrClient_getCalendar_def ReadarrClient_getCalendar_def
          append_if_truthy_def)
next
  fix c assume "c \<in> set (urlencoded_string s) \<union> set (urlencoded_string e)"
  then show "ascii_alphanumeric c \<or> c \<in> set ''*-._+%''"
    using urlencoded_string_safe by blast
qed

text \<open>The override of \<^verbatim>\<open>ReadarrClient\<close>, with a date and a value that needs encoding.\<close>

theorem calendar_query_string_witness:
  "Call_ReadarrClient_getCalendar \<in>
     {Call_getCalendar, Call_LidarrClient_getCalendar, Call_ReadarrClient_getCalendar} \<and>
   ''2024-01-01T00:00:00Z'' \<noteq> [] \<and> ''a b&c'' \<noteq> [] \<and>
   map fetch_url (sent (snd (invoke refusing (Call_ReadarrClient_getCalendar None None)
       (fresh (new Class_ReadarrClient \<lparr>url = ''http://h'', apiKey = ''k''\<rparr>))))) =
     [''http://h/api/v1/calendar''] \<and>
   map fetch_url (sent (snd (invoke refusing (Call_ReadarrClient_getCalendar (Some ''2024-01-01T00:00:00Z'') None)
       (fresh (new Class_ReadarrClient \<lparr>url = ''http://h'', apiKey = ''k''\<rparr>))))) =
     [''http://h/api/v1/calendar?start=2024-01-01T00%3A00%3A00Z''] \<and>
   map fetch_url (sent (snd (invoke refusing
       (Call_ReadarrClient_getCalendar (Some ''2024-01-01T00:00:00Z'') (Some ''a b&c''))
       (fresh (new Class_ReadarrClient \<lparr>url = ''http://h'', apiKey = ''k''\<rparr>))))) =
     [''http://h/api/v1/calendar?start=2024-01-01T00%3A00%3A00Z&end=a+b%26c'']"
proof -
  define w where "w = fresh (new Class_ReadarrClient \<lparr>url = ''http://h'', apiKey = ''k''\<rparr>)"
  have m: "Call_ReadarrClient_getCalendar \<in>
     {Call_getCalendar, Call_LidarrClient_getCalendar, Call_ReadarrClient_getCalendar}"
    by simp
  have s: "''2024-01-01T00:00:00Z'' \<noteq> []" and e: "''a b&c'' \<noteq> []" by simp_all
  have w: "sent w = []" "url (config (this w)) = ''http://h''" "apiVersion (this w) = ''v1''"
    by (simp_all add: w_def fresh_def class_defs replace_trailing_slash_def)
  have es: "urlencoded_string ''2024-01-01T00:00:00Z'' = ''2024-01-01T00%3A00%3A00Z''"
    by (simp add: urlencoded_string_def urlencoded_byte_def ascii_alphanumeric_def
          percent_encode_byte_def hex_digit_def)
  have ee: "urlencoded_string ''a b&c'' = ''a+b%26c''"
    by (simp add: urlencoded_string_def urlencoded_byte_def ascii_alphanumeric_def
          percent_encode_byte_def hex_digit_def)
  note t = calendar_query_string [OF m, of refusing w "''2024-01-01T00:00:00Z''" "''a b&c''"]
  from t [THEN conjunct1]
  have a: "map fetch_url (sent (snd (invoke refusing (Call_ReadarrClient_getCalendar None None) w))) =
     [''http://h/api/v1/calendar'']"
    by (simp add: w)
  from t [THEN conjunct2, THEN conjunct1, THEN mp, OF s]
  have b: "map fetch_url (sent (snd (invoke refusing
       (Call_ReadarrClient_getCalendar (Some ''2024-01-01T00:00:00Z'') None) w))) =
     [''http://h/api/v1/calendar?start=2024-01-01T00%3A00%3A00Z'']"
    by (simp add: w es)
  from s e have "''2024-01-01T00:00:00Z'' \<noteq> [] \<and> ''a b&c'' \<noteq> []" by (rule conjI)
  from t [THEN conjunct2, THEN conjunct2, THEN conjunct1, THEN mp, OF this]
  have c: "map fetch_url (sent (snd (invoke refusing
       (Call_ReadarrClient_getCalendar (Some ''2024-01-01T00:00:00Z'') (Some ''a b&c'')) w))) =
     [''http://h/api/v1/calendar?start=2024-01-01T00%3A00%3A00Z&end=a+b%26c'']"
    by (simp add: w es ee)
  from m s e a b c show ?thesis unfolding w_def by (intro conjI)
qed

subsection \<open>The client across calls\<close>

lemma invoke_sent_fresh:
  "sent (snd (invoke fetch call w)) = sent w @ sent (snd (invoke fetch' call (fresh (this w))))"
  by (cases call)
     (simp_all add: method_defs testConnection_snd request_snd fresh_def Let_def split: option.split)

lemma run_Cons_snd: "snd (run fetch (c # cs) w) = snd (run fetch cs (snd (invoke fetch c w)))"
  by (simp split: prod.split)

lemma run_Cons_fst:
  "fst (run fetch (c # cs) w) = fst (invoke fetch c w) # fst (run fetch cs (snd (invoke fetch c w)))"
  by (simp split: prod.split)

lemma run_length: "length (fst (run fetch calls w)) = length calls"
proof (induction calls arbitrary: w)
  case Nil
  show ?case by simp
next
  case (Cons c cs)
  show ?case by (simp only: run_Cons_fst Cons.IH list.size)
qed

lemma run_this: "this (snd (run fetch calls w)) = this w"
proof (induction calls arbitrary: w)
  case Nil
  show ?case by simp
next
  case (Cons c cs)
  have "this (snd (run fetch (c # cs) w)) = this (snd (invoke fetch c w))"
    by (simp only: run_Cons_snd Cons.IH)
  then show ?case by (simp only: invoke_this)
qed

lemma run_sent:
  "sent (snd (run fetch calls w)) =
     sent w @ concat (map (\<lambda>c. sent (snd (invoke fetch' c (fresh (this w))))) calls)"
proof (induction calls arbitrary: w)
  case Nil
  show ?case by simp
next
  case (Cons c cs)
  have "sent (snd (run fetch (c # cs) w)) =
          sent (snd (invoke fetch c w)) @
            concat (map (\<lambda>c. sent (snd (invoke fetch' c (fresh (this w))))) cs)"
    by (simp only: run_Cons_snd Cons.IH invoke_this)
  also have "sent (snd (invoke fetch c w)) = sent w @ sent (snd (invoke fetch' c (fresh (this w))))"
    by (rule invoke_sent_fresh)
  finally show ?case by simp
qed

text \<open>
  Claim C9. After any sequence of method calls the client object is the one the
  sequence started with: its \<open>url\<close>, \<open>apiKey\<close>, \<open>serviceName\<close> and
  \<open>apiVersion\<close> are unchanged. Every call returns a result, and the requests that the
  sequence hands to the transport are, call by call, the requests that each call issues
  on its own on a client with this configuration, whatever the transport answers and
  whatever was called before: nothing but the configuration is carried from one call to
  the next.
\<close>

theorem configuration_is_immutable:
  "this (snd (run fetch calls w)) = this w \<and>
   url (config (this (snd (run fetch calls w)))) = url (config (this w)) \<and>
   apiKey (config (this (snd (run fetch calls w)))) = apiKey (config (this w)) \<and>
   serviceName (this (snd (run fetch calls w))) = serviceName (this w) \<and>
   apiVersion (this (snd (run fetch calls w))) = apiVersion (this w) \<and>
   length (fst (run fetch calls w)) = length calls \<and>
   sent (snd (run fetch calls w)) =
     sent w @ concat (map (\<lambda>c. sent (snd (invoke fetch' c (fresh (this w))))) calls)"
  by (simp only: run_this run_length run_sent [of fetch calls w fetch'] simp_thms)

text \<open>
  Three calls on a Sonarr client whose transport answers each with status 500.
\<close>

theorem configuration_is_immutable_witness:
  "this (snd (run (answering boom) [Call_getStatus, Call_addSeries series_minimal, Call_testConnection]
           (fresh (new Class_SonarrClient \<lparr>url = ''http://h/'', apiKey = ''k''\<rparr>)))) =
     \<lparr>config = \<lparr>url = ''http://h'', apiKey = ''k''\<rparr>, serviceName = sonarr, apiVersion = ''v3''\<rparr> \<and>
   map fetch_url
     (sent (snd (run (answering boom) [Call_getStatus, Call_addSeries series_minimal, Call_testConnection]
           (fresh (new Class_SonarrClient \<lparr>url = ''http://h/'', apiKey = ''k''\<rparr>))))) =
     [''http://h/api/v3/system/status'', ''http://h/api/v3/series'', ''http://h/api/v3/system/status'']"
proof -
  define w where "w = fresh (new Class_SonarrClient \<lparr>url = ''http://h/'', apiKey = ''k''\<rparr>)"
  have c: "this w = \<lparr>config = \<lparr>url = ''http://h'', apiKey = ''k''\<rparr>, serviceName = sonarr, apiVersion = ''v3''\<rparr>"
    by (simp add: w_def fresh_def class_defs replace_trailing_slash_def)
  have s: "sent w = []" by (simp add: w_def fresh_def)
  have f: "fresh (this w) = w" by (simp add: w_def fresh_def)
  have u: "url (config (this w)) = ''http://h''" "apiVersion (this w) = ''v3''"
    by (simp_all add: c)
  have i: "map fetch_url (sent (snd (invoke refusing call w))) =
             [''http://h/api/v3'' @ endpoint_of call]" for call
    by (simp add: invoke_urls s u)
  note t = configuration_is_immutable
    [of "answering boom" "[Call_getStatus, Call_addSeries series_minimal, Call_testConnection]" w refusing]
  from t [THEN conjunct1] c
  have a: "this (snd (run (answering boom)
              [Call_getStatus, Call_addSeries series_minimal, Call_testConnection] w)) =
     \<lparr>config = \<lparr>url = ''http://h'', apiKey = ''k''\<rparr>, serviceName = sonarr, apiVersion = ''v3''\<rparr>"
    by (rule trans)
  have "map fetch_url (sent (snd (run (answering boom)
              [Call_getStatus, Call_addSeries series_minimal, Call_testConnection] w))) =
     [''http://h/api/v3/system/status'', ''http://h/api/v3/series'', ''http://h/api/v3/system/status'']"
    by (simp only: t [THEN conjunct2, THEN conjunct2, THEN conjunct2, THEN conjunct2, THEN conjunct2,
                      THEN conjunct2] f s)
       (simp add: i del: invoke.simps)
  with a show ?thesis unfolding w_def by (intro conjI)
qed

subsection \<open>Search commands\<close>

lemma searchEpisode_body:
  \<open>JSON_stringify (JObj [(''name'', JStr ''EpisodeSearch''), (''episodeIds'', JArr (map JNum [1, 2, 3]))]) =
     Some ''{"name":"EpisodeSearch","episodeIds":[1,2,3]}''\<close>
  by (simp add: JSON_stringify_def QuoteJSONString_def json_escape_char_def Number_toString_def)

text \<open>
  Claim C8, as stated, fails in its second half: \<^verbatim>\<open>searchEpisode\<close> returns the decoded
  response as it is, so a response with the fields \<^verbatim>\<open>id\<close>, \<^verbatim>\<open>name\<close> and
  \<^verbatim>\<open>status\<close> is returned with all three.
\<close>

theorem searchEpisode_keeps_response_fields:
  "fst (invoke (answering (accepted
          (JObj [(''id'', JNum 7), (''name'', JStr ''EpisodeSearch''), (''status'', JStr ''queued'')])))
        (Call_searchEpisode [1, 2, 3])
        (fresh (new Class_SonarrClient \<lparr>url = ''http://h'', apiKey = ''k''\<rparr>))) =
     Inr (JObj [(''id'', JNum 7), (''name'', JStr ''EpisodeSearch''), (''status'', JStr ''queued'')]) \<and>
   fst (invoke (answering (accepted
          (JObj [(''id'', JNum 7), (''name'', JStr ''EpisodeSearch''), (''status'', JStr ''queued'')])))
        (Call_searchEpisode [1, 2, 3])
        (fresh (new Class_SonarrClient \<lparr>url = ''http://h'', apiKey = ''k''\<rparr>))) \<noteq>
     Inr (JObj [(''id'', JNum 7)])"
  by (simp add: searchEpisode_def request_fst answering_def accepted_def)

text \<open>
  Claim C8, amended. \<^verbatim>\<open>searchEpisode([1,2,3])\<close> posts to \<^verbatim>\<open>/command\<close> the body
  \<^verbatim>\<open>{"name":"EpisodeSearch","episodeIds":[1,2,3]}\<close>, and \<^verbatim>\<open>searchEpisode\<close>
  returns the decoded JSON of a successful response unchanged.
\<close>

theorem searchEpisode_posts_command:
  \<open>map (\<lambda>rq. (fetch_url rq, method' (fetch_init rq), body (fetch_init rq)))
      (sent (snd (searchEpisode fetch [1, 2, 3] w))) =
     map (\<lambda>rq. (fetch_url rq, method' (fetch_init rq), body (fetch_init rq))) (sent w) @
       [(url (config (this w)) @ ''/api/'' @ apiVersion (this w) @ ''/command'',
         Some ''POST'',
         Some ''{"name":"EpisodeSearch","episodeIds":[1,2,3]}'')] \<and>
   (\<forall>rq r v. sent (snd (searchEpisode fetch ids w)) = sent w @ [rq] \<and>
             fetch (sent w) rq = Resolves r \<and> ok r \<and> json_body r = Some v \<longrightarrow>
             fst (searchEpisode fetch ids w) = Inr v)\<close>
proof (intro conjI allI impI)
  show \<open>map (\<lambda>rq. (fetch_url rq, method' (fetch_init rq), body (fetch_init rq)))
      (sent (snd (searchEpisode fetch [1, 2, 3] w))) =
     map (\<lambda>rq. (fetch_url rq, method' (fetch_init rq), body (fetch_init rq))) (sent w) @
       [(url (config (this w)) @ ''/api/'' @ apiVersion (this w) @ ''/command'',
         Some ''POST'',
         Some ''{"name":"EpisodeSearch","episodeIds":[1,2,3]}'')]\<close>
    by (simp only: searchEpisode_def searchEpisode_body) (simp add: request_snd post_options_def)
next
  fix rq r v
  assume a: "sent (snd (searchEpisode fetch ids w)) = sent w @ [rq] \<and>
             fetch (sent w) rq = Resolves r \<and> ok r \<and> json_body r = Some v"
  from request_sent [of fetch "''/command''"
      "post_options (JSON_stringify (JObj [(''name'', JStr ''EpisodeSearch''),
                                            (''episodeIds'', JArr (map JNum ids))]))" w]
  obtain rq' where s: "sent (snd (searchEpisode fetch ids w)) = sent w @ [rq']"
    and f: "fst (searchEpisode fetch ids w) =
          (case fetch (sent w) rq' of
             Rejects x \<Rightarrow> Inl (FetchRejected x)
           | Resolves r \<Rightarrow>
               if \<not> ok r
               then Inl (ApiError (service_string (serviceName (this w)) @ '' API error: ''
                              @ nat_toString (status r) @ '' '' @ statusText r
                              @ '' - '' @ text_body r))
               else (case json_body r of None \<Rightarrow> Inl JsonRejected | Some v \<Rightarrow> Inr v))"
    unfolding searchEpisode_def by (elim exE conjE)
  from a s have "rq' = rq" by simp
  with a f show "fst (searchEpisode fetch ids w) = Inr v" by simp
qed

text \<open>A Sonarr client whose transport answers with an object of two fields.\<close>

theorem searchEpisode_posts_command_witness:
  \<open>map (\<lambda>rq. (fetch_url rq, method' (fetch_init rq), body (fetch_init rq)))
      (sent (snd (searchEpisode
         (answering (accepted (JObj [(''id'', JNum 7), (''name'', JStr ''EpisodeSearch'')])))
         [1, 2, 3]
         (fresh (new Class_SonarrClient \<lparr>url = ''http://h'', apiKey = ''k''\<rparr>))))) =
     [(''http://h/api/v3/command'', Some ''POST'', Some ''{"name":"EpisodeSearch","episodeIds":[1,2,3]}'')] \<and>
   ok (accepted (JObj [(''id'', JNum 7), (''name'', JStr ''EpisodeSearch'')])) \<and>
   json_body (accepted (JObj [(''id'', JNum 7), (''name'', JStr ''EpisodeSearch'')])) =
     Some (JObj [(''id'', JNum 7), (''name'', JStr ''EpisodeSearch'')]) \<and>
   fst (searchEpisode
         (answering (accepted (JObj [(''id'', JNum 7), (''name'', JStr ''EpisodeSearch'')])))
         [1, 2, 3]
         (fresh (new Class_SonarrClient \<lparr>url = ''http://h'', apiKey = ''k''\<rparr>))) =
     Inr (JObj [(''id'', JNum 7), (''name'', JStr ''EpisodeSearch'')])\<close>
proof -
  define w where "w = fresh (new Class_SonarrClient \<lparr>url = ''http://h'', apiKey = ''k''\<rparr>)"
  define v where "v = JObj [(''id'', JNum 7), (''name'', JStr ''EpisodeSearch'')]"
  have w: "sent w = []" "url (config (this w)) = ''http://h''" "apiVersion (this w) = ''v3''"
    by (simp_all add: w_def fresh_def class_defs replace_trailing_slash_def)
  have k: "ok (accepted v)" and j: "json_body (accepted v) = Some v"
    by (simp_all add: accepted_def)
  note t = searchEpisode_posts_command [of "answering (accepted v)" w "[1, 2, 3]"]
  from t [THEN conjunct1]
  have a: \<open>map (\<lambda>rq. (fetch_url rq, method' (fetch_init rq), body (fetch_init rq)))
      (sent (snd (searchEpisode (answering (accepted v)) [1, 2, 3] w))) =
     [(''http://h/api/v3/command'', Some ''POST'', Some ''{"name":"EpisodeSearch","episodeIds":[1,2,3]}'')]\<close>
    by (simp add: w)
  then obtain rq where s: "sent (snd (searchEpisode (answering (accepted v)) [1, 2, 3] w)) = [rq]"
    by (cases "sent (snd (searchEpisode (answering (accepted v)) [1, 2, 3] w))") auto
  have p: "sent (snd (searchEpisode (answering (accepted v)) [1, 2, 3] w)) = sent w @ [rq] \<and>
        answering (accepted v) (sent w) rq = Resolves (accepted v) \<and> ok (accepted v) \<and>
        json_body (accepted v) = Some v"
    using s k j by (simp add: w answering_def)
  from t [THEN conjunct2, rule_format, of rq "accepted v" v, OF p]
  have b: "fst (searchEpisode (answering (accepted v)) [1, 2, 3] w) = Inr v" .
  from a k j b show ?thesis unfolding w_def v_def by (intro conjI)
qed

end
